theory Spec2Isabelle
  imports Complex_Main
begin

section \<open>Numbers and strings of the host language\<close>

text \<open>
  The order system (classes \<open>ElementoPedido\<close>, \<open>Producto\<close>, \<open>Caja\<close>, \<open>GestorPedidos\<close>) is
  written in TypeScript/JavaScript.  Every price is a \<open>number\<close>, that is an IEEE-754
  binary64 value: a finite one, \<open>Infinity\<close>, \<open>-Infinity\<close> or \<open>NaN\<close>.  A finite value is
  modelled by the rational number it denotes (the sign of a zero is not kept: it shows
  in none of the operations used here).  \<open>Number_de x\<close> is the value nearest to the
  rational \<open>x\<close> in binary64 with an unbounded exponent above: 53 significant bits, ties
  to even, gradual underflow below \<open>2^-1022\<close>.  \<open>redondear x\<close> is the number that the
  exact result \<open>x\<close> of an operation becomes: \<open>Number_de x\<close>, or an infinity when that
  reaches \<open>2^1024\<close> in magnitude.
\<close>

text \<open>The number of binary digits of a positive integer (32 at a time while there
  are that many), and powers with an integer exponent, by squaring.\<close>

function bits :: "int \<Rightarrow> int" where
  "bits n = (if n \<le> 0 then 0
             else if 4294967296 \<le> n then bits (n div 4294967296) + 32
             else bits (n div 2) + 1)"
  by pat_completeness auto
termination
  by (relation "measure nat") auto

declare bits.simps [simp del]

function pot :: "rat \<Rightarrow> int \<Rightarrow> rat" where
  "pot b e = (if e \<le> 0 then 1
              else if even e then (let r = pot b (e div 2) in r * r)
              else b * pot b (e - 1))"
  by pat_completeness auto
termination
  by (relation "measure (\<lambda>(b, e). nat e)") auto

declare pot.simps [simp del]

definition pot2 :: "int \<Rightarrow> rat" where
  "pot2 e = (if 0 \<le> e then pot 2 e else 1 / pot 2 (- e))"

text \<open>The binary exponent \<open>e\<close> of a non-zero \<open>x\<close>: \<open>2^e \<le> |x| < 2^(e+1)\<close>.\<close>

definition exponente :: "rat \<Rightarrow> int" where
  "exponente x =
     (let (p, q) = quotient_of \<bar>x\<bar>;
          e0 = bits p - bits q
      in if pot2 e0 \<le> \<bar>x\<bar> then e0 else e0 - 1)"

definition redondear_par :: "rat \<Rightarrow> int" where
  "redondear_par x =
     (let n = \<lfloor>x\<rfloor>; r = x - of_int n
      in if r < 1 / 2 then n else if 1 / 2 < r then n + 1
         else if even n then n else n + 1)"

definition Number_de :: "rat \<Rightarrow> rat" where
  "Number_de x =
     (if x = 0 then 0
      else let u = pot2 (max (exponente x - 52) (- 1074))
           in of_int (redondear_par (x / u)) * u)"

datatype numero = Finito rat | Infinito | MenosInfinito | NaN

definition dos_1024 :: rat where
  "dos_1024 = pot 2 1024"

definition redondear :: "rat \<Rightarrow> numero" where
  "redondear x =
     (let y = Number_de x
      in if dos_1024 \<le> y then Infinito
         else if y \<le> - dos_1024 then MenosInfinito
         else Finito y)"

text \<open>\<open>a + b\<close> on numbers: the exact sum of two finite numbers, rounded; an infinity
  absorbs a finite number and itself; \<open>Infinity + (-Infinity)\<close> and every sum with
  \<open>NaN\<close> are \<open>NaN\<close>.\<close>

fun suma :: "numero \<Rightarrow> numero \<Rightarrow> numero" where
  "suma (Finito a) (Finito b) = redondear (a + b)"
| "suma (Finito a) y = y"
| "suma x (Finito b) = x"
| "suma Infinito Infinito = Infinito"
| "suma MenosInfinito MenosInfinito = MenosInfinito"
| "suma x y = NaN"

text \<open>\<open>a / b\<close> on numbers, a zero divisor being \<open>+0\<close> (the only divisor of the program
  is the length of an array): \<open>0 / 0\<close> is \<open>NaN\<close>, another finite number over zero is an
  infinity of its sign.\<close>

fun division :: "numero \<Rightarrow> numero \<Rightarrow> numero" where
  "division (Finito a) (Finito b) =
     (if b = 0 then (if a = 0 then NaN else if 0 < a then Infinito else MenosInfinito)
      else redondear (a / b))"
| "division NaN y = NaN"
| "division x NaN = NaN"
| "division (Finito a) y = Finito 0"
| "division Infinito (Finito b) = (if 0 \<le> b then Infinito else MenosInfinito)"
| "division MenosInfinito (Finito b) = (if 0 \<le> b then MenosInfinito else Infinito)"
| "division x y = NaN"

text \<open>
  Strings are sequences of bytes; a character outside ASCII stands as its UTF-8 encoding.
  \<open>digitos n\<close> is the decimal representation of an integer \<open>n \<ge> 0\<close>.
\<close>

definition digito :: "int \<Rightarrow> char" where
  "digito d = ''0123456789'' ! nat d"

function digitos :: "int \<Rightarrow> string" where
  "digitos n = (if n < 10 then [digito n] else digitos (n div 10) @ [digito (n mod 10)])"
  by pat_completeness auto
termination
  by (relation "measure nat") auto

declare digitos.simps [simp del]

definition pot10 :: "int \<Rightarrow> rat" where
  "pot10 e = (if 0 \<le> e then pot 10 e else 1 / pot 10 (- e))"

text \<open>
  \<open>Number::toString\<close> (ECMAScript, 6.1.6.1.20) of a positive finite number \<open>x\<close>: integers
  \<open>n\<close>, \<open>k\<close>, \<open>s\<close> with \<open>10^(k-1) \<le> s < 10^k\<close>, such that \<open>s * 10^(n-k)\<close> rounds to \<open>x\<close>, with
  \<open>k\<close> as small as possible and, among the \<open>s\<close> that do, the one nearest to \<open>x\<close> (the even
  one of two at the same distance).  For \<open>x\<close> between \<open>10^(N-1)\<close> and \<open>10^N\<close>,
  \<open>ToString_buscar x N k\<close> tries \<open>k\<close>, \<open>k + 1\<close>, ... digits: of the decimals with \<open>k\<close>
  digits only the two next to \<open>x\<close> can round to it; 17 digits always suffice.  The
  result \<open>(s, e)\<close> stands for \<open>s * 10^e\<close>.
\<close>

function ToString_buscar :: "rat \<Rightarrow> int \<Rightarrow> int \<Rightarrow> int \<times> int" where
  "ToString_buscar x N k =
     (let q = pot10 (N - k);
          lo = \<lfloor>x / q\<rfloor>; hi = lo + 1;
          vlo = of_int lo * q; vhi = of_int hi * q;
          blo = (Number_de vlo = x); bhi = (Number_de vhi = x)
      in if blo \<and> bhi
         then (if x - vlo < vhi - x then (lo, N - k)
               else if vhi - x < x - vlo then (hi, N - k)
               else if even lo then (lo, N - k) else (hi, N - k))
         else if blo then (lo, N - k)
         else if bhi then (hi, N - k)
         else if 17 \<le> k then (lo, N - k)
         else ToString_buscar x N (k + 1))"
  by pat_completeness auto
termination
  by (relation "measure (\<lambda>(x, N, k). nat (17 - k))") auto

declare ToString_buscar.simps [simp del]

text \<open>
  The digits \<open>ds\<close> of \<open>s\<close> without trailing zeros (\<open>k\<close> of them) and the exponent \<open>n\<close>, the
  number being \<open>0.ds * 10^n\<close>, are written as \<open>Number::toString\<close> does: the digits and
  \<open>n - k\<close> zeros when \<open>k \<le> n \<le> 21\<close>; with a point after \<open>n\<close> digits when \<open>0 < n \<le> 21\<close>;
  after \<open>0.\<close> and \<open>-n\<close> zeros when \<open>-6 < n \<le> 0\<close>; otherwise in exponent notation, one
  digit, the other digits after a point, \<open>e\<close>, the sign of \<open>n - 1\<close> and its digits.
\<close>

definition ToString_formato :: "int \<times> int \<Rightarrow> string" where
  "ToString_formato se =
     (let ds0 = digitos (fst se);
          ds = rev (dropWhile (\<lambda>c. c = CHR ''0'') (rev ds0));
          n = snd se + int (length ds0);
          k = int (length ds)
      in if k \<le> n \<and> n \<le> 21 then ds @ replicate (nat (n - k)) (CHR ''0'')
         else if 0 < n \<and> n \<le> 21 then take (nat n) ds @ ''.'' @ drop (nat n) ds
         else if - 6 < n \<and> n \<le> 0 then ''0.'' @ replicate (nat (- n)) (CHR ''0'') @ ds
         else (if k = 1 then ds else take 1 ds @ ''.'' @ drop 1 ds)
              @ ''e'' @ (if 0 \<le> n - 1 then ''+'' else ''-'') @ digitos \<bar>n - 1\<bar>)"

text \<open>
  \<open>Number::toString\<close> of the number that the integer \<open>i \<ge> 0\<close> is (the nearest binary64
  number, were \<open>i\<close> not one), and of any integer: what a template literal \<open>${n}\<close> writes
  for an integral number.  Up to \<open>2^53\<close> these are the digits of \<open>i\<close>; above, the
  shortest digits that denote the number, then zeros, and from \<open>10^21\<close> on the exponent
  notation.
\<close>

definition ToString_natural :: "int \<Rightarrow> string" where
  "ToString_natural i =
     (if i = 0 then ''0''
      else let x = Number_de (of_int i)
           in if dos_1024 \<le> x then ''Infinity''
              else ToString_formato (ToString_buscar x (int (length (digitos \<lfloor>x\<rfloor>))) 1))"

definition ToString_entero :: "int \<Rightarrow> string" where
  "ToString_entero i = (if i < 0 then ''-'' else []) @ ToString_natural \<bar>i\<bar>"

text \<open>
  \<open>Number.prototype.toFixed(f)\<close> (ECMAScript, 21.1.3.3).  A number that is not finite is
  written by \<open>Number::toString\<close>.  Below \<open>10^21\<close> in magnitude (\<open>decimales\<close>): the sign, then
  the integer \<open>n\<close> nearest to \<open>|x| * 10^f\<close> (the larger one of two), written in decimal,
  padded with zeros to \<open>f + 1\<close> digits, with a point before the last \<open>f\<close> digits.  From
  \<open>10^21\<close> on: the sign and \<open>Number::toString\<close> of \<open>|x|\<close>, which is an integer at that
  size, so in exponent notation.
\<close>

definition decimales :: "nat \<Rightarrow> rat \<Rightarrow> string" where
  "decimales f x =
     (let s = (if x < 0 then ''-'' else []);
          n = \<lfloor>\<bar>x\<bar> * 10 ^ f + 1 / 2\<rfloor>;
          m = digitos n;
          m = (if length m \<le> f then replicate (f + 1 - length m) (CHR ''0'') @ m else m);
          k = length m
      in if f \<noteq> 0 then s @ take (k - f) m @ ''.'' @ drop (k - f) m else s @ m)"

fun toFixed :: "numero \<Rightarrow> nat \<Rightarrow> string" where
  "toFixed (Finito x) f =
     (if \<bar>x\<bar> < 10 ^ 21 then decimales f x
      else (if x < 0 then ''-'' else []) @ ToString_natural \<lfloor>\<bar>x\<bar>\<rfloor>)"
| "toFixed Infinito f = ''Infinity''"
| "toFixed MenosInfinito f = ''-Infinity''"
| "toFixed NaN f = ''NaN''"

section \<open>Objects and the store\<close>

text \<open>
  Objects are reached through references, and \<open>Caja.contenido\<close> is an array of
  references: the same object may be held by several containers and by the order, and
  \<open>indexOf\<close> compares references.  The store maps every reference to the object it
  denotes (a JavaScript reference never dangles).  The fields are those of the classes:
  \<open>nombre\<close> from \<open>ElementoPedido\<close>; \<open>precio\<close>, \<open>categoria\<close> for \<open>Producto\<close>;
  \<open>contenido\<close>, \<open>costoCaja\<close>, \<open>tipoEmpaque\<close>, \<open>capacidadMaxima\<close> for \<open>Caja\<close>.
  \<open>capacidadMaxima\<close> bounds a number of elements and is an integer (the constructor
  does not look at its sign).
\<close>

type_synonym ref = nat

datatype objeto =
    Producto (nombre: string) (precio: numero) (categoria: string)
  | Caja (nombre: string) (contenido: "ref list") (costoCaja: numero) (tipoEmpaque: string)
      (capacidadMaxima: int)

type_synonym heap = "ref \<Rightarrow> objeto"

definition obtenerNombre :: "heap \<Rightarrow> ref \<Rightarrow> string" where
  "obtenerNombre h this = nombre (h this)"

text \<open>
  A \<open>for (const elemento of ...)\<close> loop that carries a local variable through the
  iterations.  The body may call a method that does not return (unbounded recursion over
  a cyclic structure); then the loop does not return either.
\<close>

fun bucle :: "('s \<Rightarrow> 'a \<Rightarrow> 's option) \<Rightarrow> 's \<Rightarrow> 'a list \<Rightarrow> 's option" where
  "bucle cuerpo s [] = Some s"
| "bucle cuerpo s (x # xs) =
     Option.bind (cuerpo s x) (\<lambda>s'. bucle cuerpo s' xs)"

lemma bucle_mono [partial_function_mono]:
  assumes "\<And>s x. mono_option (\<lambda>f. B f s x)"
  shows "mono_option (\<lambda>f. bucle (B f) s xs)"
proof (induction xs arbitrary: s)
  case Nil
  show ?case by (simp add: option.const_mono)
next
  case (Cons x xs)
  show ?case
    unfolding bucle.simps
    by (rule bind_mono assms Cons)+
qed

section \<open>Producto and Caja\<close>

text \<open>
  \<open>Producto.calcularPrecio\<close> returns \<open>this.precio\<close>; \<open>Caja.calcularPrecio\<close> starts from
  \<open>this.costoCaja\<close> and adds \<open>elemento.calcularPrecio()\<close> for each element of
  \<open>this.contenido\<close> in order.  \<open>None\<close> is a call that does not return: the
  recursion does not end on a structure that contains itself.
\<close>

partial_function (option) calcularPrecio :: "heap \<Rightarrow> ref \<Rightarrow> numero option" where
  "calcularPrecio h this =
     (case h this of
        Producto n p c \<Rightarrow> Some p
      | Caja n cs costo t cap \<Rightarrow>
          bucle (\<lambda>precioTotal elemento.
                   Option.bind (calcularPrecio h elemento) (\<lambda>p. Some (suma precioTotal p)))
                costo cs)"

text \<open>
  What a method writes with \<open>console.log\<close>, one entry per line written, holding the
  values interpolated into the message:
  \<^item> \<open>CapacidadMaximaAlcanzada nombre capacidadMaxima\<close>: "La caja '...' ha alcanzado su
    capacidad maxima (... elementos)", the diagnostic of an insertion that is refused;
  \<^item> \<open>Agregado elemento caja\<close>: "Agregado '...' a la caja '...'";
  \<^item> \<open>Removido elemento caja\<close>: "Removido '...' de la caja '...'";
  \<^item> \<open>NoEncontrado elemento caja\<close>: "No se encontro '...' en la caja '...'", the
    diagnostic of a removal that finds nothing;
  \<^item> \<open>AgregadoAlPedido elemento\<close>: "Agregado al pedido: ...".
\<close>

datatype registro =
    CapacidadMaximaAlcanzada string int
  | Agregado string string
  | Removido string string
  | NoEncontrado string string
  | AgregadoAlPedido string

text \<open>\<open>new Producto(nombre, precio, categoria)\<close> and
  \<open>new Caja(nombre, costoCaja, tipoEmpaque, capacidadMaxima)\<close> create the object at a
  fresh reference \<open>r\<close>; a new \<open>Caja\<close> has \<open>contenido = []\<close>.  The default arguments are
  \<open>'General'\<close>, \<open>'Estandar'\<close> (with an acute accent) and \<open>10\<close>.\<close>

definition new_Producto :: "heap \<Rightarrow> ref \<Rightarrow> string \<Rightarrow> numero \<Rightarrow> string \<Rightarrow> heap" where
  "new_Producto h r n p c = h(r := Producto n p c)"

definition new_Caja :: "heap \<Rightarrow> ref \<Rightarrow> string \<Rightarrow> numero \<Rightarrow> string \<Rightarrow> int \<Rightarrow> heap" where
  "new_Caja h r n costo t cap = h(r := Caja n [] costo t cap)"

definition categoria_por_defecto :: string where
  "categoria_por_defecto = ''General''"

definition tipoEmpaque_por_defecto :: string where
  "tipoEmpaque_por_defecto = ''Est'' @ [CHR 0xC3, CHR 0xA1] @ ''ndar''"

definition capacidadMaxima_por_defecto :: int where
  "capacidadMaxima_por_defecto = 10"

text \<open>
  The methods of \<open>Caja\<close> that change \<open>this.contenido\<close> return the new store and the lines
  logged.  They exist on a \<open>Caja\<close> only: on a reference to a \<open>Producto\<close> there is no such
  method to call (\<open>None\<close>).
\<close>

definition agregar :: "heap \<Rightarrow> ref \<Rightarrow> ref \<Rightarrow> (heap \<times> registro list) option" where
  "agregar h this elemento =
     (case h this of
        Producto _ _ _ \<Rightarrow> None
      | Caja n cs costo t cap \<Rightarrow>
          if cap \<le> int (length cs) then Some (h, [CapacidadMaximaAlcanzada n cap])
          else let h' = h(this := Caja n (cs @ [elemento]) costo t cap)
               in Some (h', [Agregado (obtenerNombre h' elemento) (obtenerNombre h' this)]))"

text \<open>\<open>Array.prototype.indexOf\<close>: the first index holding the same reference (strict
  equality), or \<open>-1\<close>.  \<open>splice(i, n)\<close> (here \<open>splice_js\<close>) removes \<open>n\<close> entries from index \<open>i\<close> on.\<close>

fun indexOf_desde :: "ref list \<Rightarrow> ref \<Rightarrow> int \<Rightarrow> int" where
  "indexOf_desde [] x k = - 1"
| "indexOf_desde (y # ys) x k = (if y = x then k else indexOf_desde ys x (k + 1))"

definition indexOf :: "ref list \<Rightarrow> ref \<Rightarrow> int" where
  "indexOf xs x = indexOf_desde xs x 0"

definition splice_js :: "'a list \<Rightarrow> nat \<Rightarrow> nat \<Rightarrow> 'a list" where
  "splice_js xs i n = take i xs @ drop (i + n) xs"

definition remover :: "heap \<Rightarrow> ref \<Rightarrow> ref \<Rightarrow> (heap \<times> registro list) option" where
  "remover h this elemento =
     (case h this of
        Producto _ _ _ \<Rightarrow> None
      | Caja n cs costo t cap \<Rightarrow>
          let indice = indexOf cs elemento
          in if indice \<noteq> - 1
             then let h' = h(this := Caja n (splice_js cs (nat indice) 1) costo t cap)
                  in Some (h', [Removido (obtenerNombre h' elemento) (obtenerNombre h' this)])
             else Some (h, [NoEncontrado (obtenerNombre h elemento) (obtenerNombre h this)]))"

text \<open>The \<open>remover\<close> of \<open>sistema-con-diagramas.ts\<close> has no \<open>else\<close> branch.\<close>

definition remover_diagramas :: "heap \<Rightarrow> ref \<Rightarrow> ref \<Rightarrow> (heap \<times> registro list) option" where
  "remover_diagramas h this elemento =
     (case h this of
        Producto _ _ _ \<Rightarrow> None
      | Caja n cs costo t cap \<Rightarrow>
          let indice = indexOf cs elemento
          in if indice \<noteq> - 1
             then let h' = h(this := Caja n (splice_js cs (nat indice) 1) costo t cap)
                  in Some (h', [Removido (obtenerNombre h' elemento) (obtenerNombre h' this)])
             else Some (h, []))"

definition obtenerCantidadElementos :: "heap \<Rightarrow> ref \<Rightarrow> nat option" where
  "obtenerCantidadElementos h this =
     (case h this of Producto _ _ _ \<Rightarrow> None | Caja n cs costo t cap \<Rightarrow> Some (length cs))"

definition estaLlena :: "heap \<Rightarrow> ref \<Rightarrow> bool option" where
  "estaLlena h this =
     (case h this of
        Producto _ _ _ \<Rightarrow> None
      | Caja n cs costo t cap \<Rightarrow> Some (cap \<le> int (length cs)))"

text \<open>\<open>generarIndentacion(nivel)\<close> is \<open>'  '.repeat(nivel)\<close>, for a level that is a natural
  number.  \<open>paquete\<close> is the package emoji U+1F4E6 that starts every description.\<close>

definition generarIndentacion :: "nat \<Rightarrow> string" where
  "generarIndentacion nivel = concat (replicate nivel ''  '')"

definition paquete :: string where
  "paquete = [CHR 0xF0, CHR 0x9F, CHR 0x93, CHR 0xA6]"

definition vacia :: string where
  "vacia = '' (vac'' @ [CHR 0xC3, CHR 0xAD] @ ''a)''"

partial_function (option) obtenerDescripcion :: "heap \<Rightarrow> ref \<Rightarrow> nat \<Rightarrow> string option" where
  "obtenerDescripcion h this nivel =
     (case h this of
        Producto n p c \<Rightarrow>
          Some (generarIndentacion nivel @ paquete @ '' Producto: '' @ n @ '' ('' @ c
                @ '') - $'' @ toFixed p 2)
      | Caja n cs costo t cap \<Rightarrow>
          let descripcion = generarIndentacion nivel @ paquete @ '' Caja: '' @ n @ '' (''
                            @ t @ '') - Costo base: $'' @ toFixed costo 2
          in if length cs = 0 then Some (descripcion @ vacia)
             else bucle (\<lambda>descripcion elemento.
                           Option.bind (obtenerDescripcion h elemento (nivel + 1)) (\<lambda>d.
                           Some (descripcion @ [CHR 0x0A] @ d)))
                        (descripcion @ '' ('' @ digitos (int (length cs)) @ ''/''
                         @ ToString_entero cap @ '' elementos):'')
                        cs)"

partial_function (option) obtenerTodosLosProductos :: "heap \<Rightarrow> ref \<Rightarrow> ref list option" where
  "obtenerTodosLosProductos h this =
     (case h this of
        Producto _ _ _ \<Rightarrow> None
      | Caja n cs costo t cap \<Rightarrow>
          bucle (\<lambda>productos elemento.
                   case h elemento of
                     Producto _ _ _ \<Rightarrow> Some (productos @ [elemento])
                   | Caja _ _ _ _ _ \<Rightarrow>
                       Option.bind (obtenerTodosLosProductos h elemento) (\<lambda>ps.
                       Some (productos @ ps)))
                [] cs)"

section \<open>GestorPedidos\<close>

text \<open>The order holds the references of its top-level elements.  \<open>fechaPedido\<close> is the
  clock's reading at construction, a parameter here.\<close>

record GestorPedidos =
  elementos :: "ref list"
  numeroPedido :: string
  fechaPedido :: int

definition new_GestorPedidos :: "string \<Rightarrow> int \<Rightarrow> GestorPedidos" where
  "new_GestorPedidos numero ahora =
     \<lparr>elementos = [], numeroPedido = numero, fechaPedido = ahora\<rparr>"

definition agregarElemento ::
  "heap \<Rightarrow> GestorPedidos \<Rightarrow> ref \<Rightarrow> GestorPedidos \<times> registro list" where
  "agregarElemento h g elemento =
     (g\<lparr>elementos := elementos g @ [elemento]\<rparr>, [AgregadoAlPedido (obtenerNombre h elemento)])"

definition calcularPrecioTotal :: "heap \<Rightarrow> GestorPedidos \<Rightarrow> numero option" where
  "calcularPrecioTotal h g =
     bucle (\<lambda>total elemento.
              Option.bind (calcularPrecio h elemento) (\<lambda>p. Some (suma total p)))
           (Finito 0) (elementos g)"

record Estadisticas =
  totalElementos :: nat
  totalProductos :: nat
  totalCajas :: nat
  precioPromedio :: numero

definition obtenerEstadisticas :: "heap \<Rightarrow> GestorPedidos \<Rightarrow> Estadisticas option" where
  "obtenerEstadisticas h g =
     Option.bind
       (bucle (\<lambda>(totalProductos, totalCajas) elemento.
                 case h elemento of
                   Producto _ _ _ \<Rightarrow> Some (totalProductos + 1, totalCajas)
                 | Caja _ _ _ _ _ \<Rightarrow>
                     Option.bind (obtenerTodosLosProductos h elemento) (\<lambda>ps.
                     Some (totalProductos + length ps, totalCajas + 1)))
              (0, 0) (elementos g))
       (\<lambda>(totalProductos, totalCajas).
     Option.bind (calcularPrecioTotal h g) (\<lambda>precioTotal.
     let totalElementos = length (elementos g)
     in Some \<lparr>totalElementos = totalElementos, totalProductos = totalProductos,
              totalCajas = totalCajas,
              precioPromedio = (if totalElementos > 0
                                then division precioTotal (Finito (of_nat totalElementos))
                                else Finito 0)\<rparr>))"

section \<open>Trees\<close>

text \<open>
  The specification speaks of trees of Items and Containers.  \<open>arbol\<close> is such a tree,
  each node with its reference and fields, and \<open>representa h t\<close> says that the objects of
  the store \<open>h\<close> reachable from \<open>raiz t\<close> unfold to exactly the tree \<open>t\<close>.  A store in
  which a container reaches itself represents no tree from that container.
\<close>

datatype arbol =
    Hoja ref string numero string
  | Rama ref string "arbol list" numero string int

fun raiz :: "arbol \<Rightarrow> ref" where
  "raiz (Hoja r n p c) = r"
| "raiz (Rama r n ts costo t cap) = r"

fun representa :: "heap \<Rightarrow> arbol \<Rightarrow> bool" where
  "representa h (Hoja r n p c) = (h r = Producto n p c)"
| "representa h (Rama r n ts costo t cap) =
     (h r = Caja n (map raiz ts) costo t cap \<and> (\<forall>s \<in> set ts. representa h s))"

text \<open>The references of all nodes of a tree.\<close>

fun referencias :: "arbol \<Rightarrow> ref set" where
  "referencias (Hoja r n p c) = {r}"
| "referencias (Rama r n ts costo t cap) = insert r (\<Union>s \<in> set ts. referencias s)"

text \<open>Price, by the program's arithmetic: from the handling cost, the prices of the
  children added one after the other, from left to right, with the addition of
  numbers.\<close>

fun precio_arbol :: "arbol \<Rightarrow> numero" where
  "precio_arbol (Hoja r n p c) = p"
| "precio_arbol (Rama r n ts costo t cap) = foldl suma costo (map precio_arbol ts)"

text \<open>The Item leaves of a tree in depth-first order, and their number.\<close>

fun hojas :: "arbol \<Rightarrow> ref list" where
  "hojas (Hoja r n p c) = [r]"
| "hojas (Rama r n ts costo t cap) = concat (map hojas ts)"

fun contar_hojas :: "arbol \<Rightarrow> nat" where
  "contar_hojas (Hoja r n p c) = 1"
| "contar_hojas (Rama r n ts costo t cap) = sum_list (map contar_hojas ts)"

text \<open>
  Exact arithmetic, for comparison.  \<open>sumas_exactas a qs\<close>: adding the rationals \<open>qs\<close>
  to \<open>a\<close> one after the other, every partial sum is a finite number of the program, so
  that no addition rounds.  \<open>precio_exacto\<close> is the handling cost plus the sum of the
  children's prices in the rationals, for a tree whose numbers are finite, and
  \<open>exacto t\<close> says that they are and that no addition made for \<open>t\<close> rounds.
\<close>

fun sumas_exactas :: "rat \<Rightarrow> rat list \<Rightarrow> bool" where
  "sumas_exactas a [] = True"
| "sumas_exactas a (q # qs) = (redondear (a + q) = Finito (a + q) \<and> sumas_exactas (a + q) qs)"

fun valor :: "numero \<Rightarrow> rat" where
  "valor (Finito x) = x"
| "valor y = 0"

fun precio_exacto :: "arbol \<Rightarrow> rat" where
  "precio_exacto (Hoja r n p c) = valor p"
| "precio_exacto (Rama r n ts costo t cap) = valor costo + sum_list (map precio_exacto ts)"

fun exacto :: "arbol \<Rightarrow> bool" where
  "exacto (Hoja r n p c) = (p = Finito (valor p))"
| "exacto (Rama r n ts costo t cap) =
     (costo = Finito (valor costo) \<and> (\<forall>s \<in> set ts. exacto s)
      \<and> sumas_exactas (valor costo) (map precio_exacto ts))"

text \<open>Description: one line for the node, indented by two spaces per level, then the
  children one level deeper, each on a new line, in the order of the contents.\<close>

fun descripcion_arbol :: "nat \<Rightarrow> arbol \<Rightarrow> string" where
  "descripcion_arbol nivel (Hoja r n p c) =
     replicate (2 * nivel) (CHR '' '') @ paquete @ '' Producto: '' @ n @ '' ('' @ c
     @ '') - $'' @ toFixed p 2"
| "descripcion_arbol nivel (Rama r n ts costo t cap) =
     replicate (2 * nivel) (CHR '' '') @ paquete @ '' Caja: '' @ n @ '' ('' @ t
     @ '') - Costo base: $'' @ toFixed costo 2
     @ (if ts = [] then vacia
        else '' ('' @ digitos (int (length ts)) @ ''/'' @ ToString_entero cap
             @ '' elementos):''
             @ concat (map (\<lambda>s. CHR 0x0A # descripcion_arbol (nivel + 1) s) ts))"

section \<open>Sequences of calls\<close>

text \<open>A call of \<open>agregar\<close> or \<open>remover\<close> on a container (first argument) with an
  element (second argument), and a sequence of such calls run one after the other.\<close>

datatype llamada = Agregar ref ref | Remover ref ref

fun destino :: "llamada \<Rightarrow> ref" where
  "destino (Agregar c e) = c"
| "destino (Remover c e) = c"

fun llamar :: "heap \<Rightarrow> llamada \<Rightarrow> (heap \<times> registro list) option" where
  "llamar h (Agregar c e) = agregar h c e"
| "llamar h (Remover c e) = remover h c e"

fun secuencia :: "heap \<Rightarrow> llamada list \<Rightarrow> heap option" where
  "secuencia h [] = Some h"
| "secuencia h (l # ls) = Option.bind (llamar h l) (\<lambda>(h', _). secuencia h' ls)"

fun es_Caja :: "objeto \<Rightarrow> bool" where
  "es_Caja (Caja n cs costo t cap) = True"
| "es_Caja (Producto n p c) = False"

section \<open>The example of the specification\<close>

text \<open>
  A product "Mouse" at 25.99 and a product "Keyboard" at 89.99 in a box "Peripherals"
  (cost 5.00, capacity 5); that box and a product "Book" at 45.00 in a box "Shipment"
  (cost 10.00, default capacity).  A decimal literal of the program denotes the nearest
  binary64 number (\<open>redondear\<close>).  \<open>construir_ejemplo\<close> builds the objects with the constructors and
  \<open>agregar\<close>, from a store whose other references denote an unnamed product;
  \<open>almacen_ejemplo\<close> is the store this yields.
\<close>

definition almacen_inicial :: heap where
  "almacen_inicial = (\<lambda>_. Producto [] (Finito 0) [])"

definition almacen_ejemplo :: heap where
  "almacen_ejemplo = almacen_inicial
     (11 := Producto ''Mouse'' (redondear (2599 / 100)) ''General'',
      12 := Producto ''Keyboard'' (redondear (8999 / 100)) ''General'',
      13 := Caja ''Peripherals'' [11, 12] (Finito 5) tipoEmpaque_por_defecto 5,
      14 := Producto ''Book'' (Finito 45) ''General'',
      15 := Caja ''Shipment'' [13, 14] (Finito 10) tipoEmpaque_por_defecto 10)"

definition construir_ejemplo :: "heap option" where
  "construir_ejemplo =
     (let h = new_Producto almacen_inicial 11 ''Mouse'' (redondear (2599 / 100))
                categoria_por_defecto;
          h = new_Producto h 12 ''Keyboard'' (redondear (8999 / 100)) categoria_por_defecto;
          h = new_Caja h 13 ''Peripherals'' (Finito 5) tipoEmpaque_por_defecto 5
      in Option.bind (agregar h 13 11) (\<lambda>(h, _).
         Option.bind (agregar h 13 12) (\<lambda>(h, _).
         let h = new_Producto h 14 ''Book'' (Finito 45) categoria_por_defecto;
             h = new_Caja h 15 ''Shipment'' (Finito 10) tipoEmpaque_por_defecto
                   capacidadMaxima_por_defecto
         in Option.bind (agregar h 15 13) (\<lambda>(h, _).
            Option.bind (agregar h 15 14) (\<lambda>(h, _). Some h)))))"

definition arbol_ejemplo :: arbol where
  "arbol_ejemplo =
     Rama 15 ''Shipment''
       [Rama 13 ''Peripherals''
          [Hoja 11 ''Mouse'' (redondear (2599 / 100)) ''General'',
           Hoja 12 ''Keyboard'' (redondear (8999 / 100)) ''General'']
          (Finito 5) tipoEmpaque_por_defecto 5,
        Hoja 14 ''Book'' (Finito 45) ''General'']
       (Finito 10) tipoEmpaque_por_defecto 10"

text \<open>A store with a box of capacity 2, empty (\<open>almacen_caja_nueva\<close>) and full
  (\<open>almacen_caja_llena\<close>), beside the objects of the example.\<close>

definition almacen_caja_nueva :: heap where
  "almacen_caja_nueva = new_Caja almacen_ejemplo 16 ''Nueva'' (Finito 1) tipoEmpaque_por_defecto 2"

definition almacen_caja_llena :: heap where
  "almacen_caja_llena =
     almacen_ejemplo(16 := Caja ''Nueva'' [11, 12] (Finito 1) tipoEmpaque_por_defecto 2)"

text \<open>A store with two distinct products that have the same fields, one of them in a
  box.\<close>

definition almacen_gemelos :: heap where
  "almacen_gemelos = almacen_inicial
     (21 := Producto ''A'' (Finito 1) ''General'',
      22 := Producto ''A'' (Finito 1) ''General'',
      23 := Caja ''B'' [21] (Finito 0) tipoEmpaque_por_defecto 10)"

text \<open>The specification's words for \<open>remove\<close>: an occurrence matches the element when it
  is the same reference or a structurally identical object, and the first matching
  occurrence is removed; \<open>None\<close> when there is none (\<open>NotFound\<close>).\<close>

definition coincide :: "heap \<Rightarrow> ref \<Rightarrow> ref \<Rightarrow> bool" where
  "coincide h e x = (x = e \<or> h x = h e)"

fun quitar_primero :: "('a \<Rightarrow> bool) \<Rightarrow> 'a list \<Rightarrow> 'a list option" where
  "quitar_primero P [] = None"
| "quitar_primero P (x # xs) =
     (if P x then Some xs else map_option ((#) x) (quitar_primero P xs))"

text \<open>An order with no element, and the order that holds the box "Shipment" of the
  example.\<close>

definition pedido_vacio :: GestorPedidos where
  "pedido_vacio = new_GestorPedidos ''PED-001'' 0"

definition pedido_ejemplo :: GestorPedidos where
  "pedido_ejemplo = fst (agregarElemento almacen_ejemplo pedido_vacio 15)"

text \<open>The tree after \<open>agregar\<close> has appended the element with tree \<open>tx\<close> to the
  container \<open>c\<close>: every node of the tree that is the object \<open>c\<close> has \<open>tx\<close> as a new last
  child.\<close>

fun insertar :: "ref \<Rightarrow> arbol \<Rightarrow> arbol \<Rightarrow> arbol" where
  "insertar c tx (Hoja r n p k) = Hoja r n p k"
| "insertar c tx (Rama r n ts costo te cap) =
     Rama r n (map (insertar c tx) ts @ (if r = c then [tx] else [])) costo te cap"

text \<open>The store of the example with one more product, "Cable" at 19.99, not yet in any
  box.\<close>

definition almacen_cable :: heap where
  "almacen_cable = new_Producto almacen_ejemplo 17 ''Cable'' (redondear (1999 / 100))
                     categoria_por_defecto"

definition hoja_cable :: arbol where
  "hoja_cable = Hoja 17 ''Cable'' (redondear (1999 / 100)) ''General''"

text \<open>A box "Sobres" of cost 5.00 holding two products at 0.10 and 0.30.\<close>

definition almacen_sobres :: heap where
  "almacen_sobres = almacen_inicial
     (31 := Producto ''Sello'' (redondear (1 / 10)) ''General'',
      32 := Producto ''Sobre'' (redondear (3 / 10)) ''General'',
      33 := Caja ''Sobres'' [31, 32] (Finito 5) tipoEmpaque_por_defecto 10)"

text \<open>A box "Estuche" of cost 5.00 holding two products at 1.50 and 2.25, numbers whose
  sums are binary64 numbers; its tree; and an order that holds the first product.\<close>

definition almacen_estuche :: heap where
  "almacen_estuche = almacen_inicial
     (34 := Producto ''Lapiz'' (Finito (3 / 2)) ''General'',
      35 := Producto ''Goma'' (Finito (9 / 4)) ''General'',
      36 := Caja ''Estuche'' [34, 35] (Finito 5) tipoEmpaque_por_defecto 10)"

definition arbol_estuche :: arbol where
  "arbol_estuche =
     Rama 36 ''Estuche''
       [Hoja 34 ''Lapiz'' (Finito (3 / 2)) ''General'',
        Hoja 35 ''Goma'' (Finito (9 / 4)) ''General'']
       (Finito 5) tipoEmpaque_por_defecto 10"

definition pedido_lapiz :: GestorPedidos where
  "pedido_lapiz = fst (agregarElemento almacen_estuche pedido_vacio 34)"

text \<open>The store of the example with the product that the demonstration of the source
  adds to its order after the box, an extended guarantee at 99.99.\<close>

definition almacen_garantia :: heap where
  "almacen_garantia = new_Producto almacen_ejemplo 18 ''Garantia Extendida''
                        (redondear (9999 / 100)) ''Servicios''"

text \<open>An empty box whose cost is \<open>1e21\<close>, and a box with one product whose capacity is
  \<open>2^60\<close>.\<close>

definition almacen_caro :: heap where
  "almacen_caro = almacen_ejemplo
     (41 := Caja ''Cara'' [] (Finito (10 ^ 21)) tipoEmpaque_por_defecto 10,
      42 := Caja ''Enorme'' [14] (Finito 0) tipoEmpaque_por_defecto (2 ^ 60))"

section \<open>Properties\<close>

text \<open>Known values, as a check of the model of numbers: the numbers \<open>0.1\<close> and \<open>0.3\<close>, the
  sum \<open>0.1 + 0.2\<close> (printed 0.30000000000000004), ties above \<open>2^53\<close> going to the even
  neighbour, \<open>1 / 3\<close>, \<open>0 / 0\<close>, and the overflow of \<open>2^1023 + 2^1023\<close>; and of the model
  of strings: \<open>toFixed(2)\<close> on 25.99, -0.001, 0.005 and \<open>1e21\<close>, and the digits of 10 and
  \<open>2^60\<close>.\<close>

lemma Number_de_ejemplos:
  "redondear (1 / 10) = Finito (3602879701896397 / 2 ^ 55)"
  "suma (redondear (1 / 10)) (redondear (2 / 10)) = Finito (1351079888211149 / 2 ^ 52)"
  "redondear (3 / 10) = Finito (5404319552844595 / 2 ^ 54)"
  "redondear (2 ^ 53 + 1) = Finito (2 ^ 53)"
  "redondear (2 ^ 53 + 3) = Finito (2 ^ 53 + 4)"
  "division (Finito 1) (Finito 3) = Finito (6004799503160661 / 2 ^ 54)"
  "division (Finito 0) (Finito 0) = NaN"
  by code_simp+

lemma suma_desborda: "suma (Finito (dos_1024 / 2)) (Finito (dos_1024 / 2)) = Infinito"
  by code_simp

lemma toString_ejemplos:
  "toFixed (redondear (2599 / 100)) 2 = ''25.99''"
  "toFixed (redondear (- 1 / 1000)) 2 = ''-0.00''"
  "toFixed (redondear (5 / 1000)) 2 = ''0.01''"
  "toFixed (Finito (10 ^ 21)) 2 = ''1e+21''"
  "ToString_entero 10 = ''10''"
  "ToString_entero (2 ^ 60) = ''1152921504606847000''"
  by code_simp+

text \<open>C8.  For a \<open>Producto\<close> with price \<open>p\<close>, \<open>calcularPrecio\<close> returns \<open>p\<close> unchanged: the
  call always returns, and it returns a value only (the store is not an output).\<close>

theorem C8_Producto_calcularPrecio:
  "h this = Producto n p c \<Longrightarrow> calcularPrecio h this = Some p"
  by (subst calcularPrecio.simps) simp

theorem C8_Producto_calcularPrecio_witness:
  "almacen_ejemplo 11 = Producto ''Mouse'' (redondear (2599 / 100)) ''General''
   \<and> calcularPrecio almacen_ejemplo 11 = Some (redondear (2599 / 100))"
proof -
  have obj: "almacen_ejemplo 11 = Producto ''Mouse'' (redondear (2599 / 100)) ''General''"
    by (simp add: almacen_ejemplo_def)
  show ?thesis
    using C8_Producto_calcularPrecio [of almacen_ejemplo 11] obj by simp
qed

lemma bucle_Some:
  "map f xs = map Some vs \<Longrightarrow>
   bucle (\<lambda>s x. Option.bind (f x) (\<lambda>v. Some (paso s v))) s xs = Some (foldl paso s vs)"
proof (induction xs arbitrary: s vs)
  case Nil
  then show ?case by simp
next
  case (Cons x xs)
  then obtain v ws where vs: "vs = v # ws" and fx: "f x = Some v"
    and rest: "map f xs = map Some ws"
    by (cases vs) auto
  show ?case
    using Cons.IH [OF rest] by (simp add: vs fx)
qed

lemma bucle_foldl:
  "(\<And>s t. t \<in> set ts \<Longrightarrow> cuerpo s (f t) = Some (paso s (g t))) \<Longrightarrow>
   bucle cuerpo s (map f ts) = Some (foldl paso s (map g ts))"
  by (induction ts arbitrary: s) simp_all

lemma calcularPrecio_Caja:
  "h c = Caja n cs costo t cap \<Longrightarrow>
   calcularPrecio h c =
     bucle (\<lambda>precioTotal elemento.
              Option.bind (calcularPrecio h elemento) (\<lambda>p. Some (suma precioTotal p)))
           costo cs"
  by (subst calcularPrecio.simps) simp

lemma calcularPrecio_representa:
  "representa h t \<Longrightarrow> calcularPrecio h (raiz t) = Some (precio_arbol t)"
proof (induction t)
  case (Hoja r n p c)
  then show ?case by (subst calcularPrecio.simps) simp
next
  case (Rama r n ts costo te cap)
  have obj: "h r = Caja n (map raiz ts) costo te cap"
    and hijos: "\<And>s. s \<in> set ts \<Longrightarrow> representa h s"
    using Rama.prems by auto
  have "map (calcularPrecio h) (map raiz ts) = map Some (map precio_arbol ts)"
    using Rama.IH hijos by simp
  then show ?case
    by (simp add: calcularPrecio_Caja [of h r, OF obj] bucle_Some)
qed

lemma foldl_suma_exacta:
  "sumas_exactas a qs \<Longrightarrow> foldl suma (Finito a) (map Finito qs) = Finito (a + sum_list qs)"
  by (induction qs arbitrary: a) (simp_all add: add.assoc)

lemma precio_arbol_exacto: "exacto t \<Longrightarrow> precio_arbol t = Finito (precio_exacto t)"
proof (induction t)
  case (Hoja r n p c)
  then show ?case by simp
next
  case (Rama r n ts costo te cap)
  have costo: "costo = Finito (valor costo)"
    and sumas: "sumas_exactas (valor costo) (map precio_exacto ts)"
    and hijos: "\<And>s. s \<in> set ts \<Longrightarrow> exacto s"
    using Rama.prems by auto
  have m: "map precio_arbol ts = map Finito (map precio_exacto ts)"
    using Rama.IH hijos by simp
  have "precio_arbol (Rama r n ts costo te cap)
      = foldl suma costo (map Finito (map precio_exacto ts))"
    unfolding precio_arbol.simps m ..
  also have "\<dots> = foldl suma (Finito (valor costo)) (map Finito (map precio_exacto ts))"
    using costo by simp
  also have "\<dots> = Finito (valor costo + sum_list (map precio_exacto ts))"
    using sumas by (rule foldl_suma_exacta)
  finally show ?case by simp
qed

lemma representa_ejemplo: "representa almacen_ejemplo arbol_ejemplo"
  by (simp add: almacen_ejemplo_def arbol_ejemplo_def)

lemma representa_estuche: "representa almacen_estuche arbol_estuche"
  by (simp add: almacen_estuche_def arbol_estuche_def)

lemma sumas_estuche: "sumas_exactas 5 [3 / 2, 9 / 4]"
  by code_simp

lemma exacto_estuche: "exacto arbol_estuche"
  using sumas_estuche by (simp add: arbol_estuche_def)

lemma precio_Peripherals:
  "calcularPrecio almacen_ejemplo 13 = Some (Finito (4256605335306895 / 35184372088832))"
proof -
  have "representa almacen_ejemplo
          (Rama 13 ''Peripherals''
             [Hoja 11 ''Mouse'' (redondear (2599 / 100)) ''General'',
              Hoja 12 ''Keyboard'' (redondear (8999 / 100)) ''General'']
             (Finito 5) tipoEmpaque_por_defecto 5)"
    by (simp add: almacen_ejemplo_def)
  from calcularPrecio_representa [OF this]
  have "calcularPrecio almacen_ejemplo 13
        = Some (suma (suma (Finito 5) (redondear (2599 / 100))) (redondear (8999 / 100)))"
    by simp
  also have "suma (suma (Finito 5) (redondear (2599 / 100))) (redondear (8999 / 100))
        = Finito (4256605335306895 / 35184372088832)"
    by code_simp
  finally show ?thesis .
qed

lemma precio_Shipment:
  "calcularPrecio almacen_ejemplo 15 = Some (Finito (6191745800192655 / 35184372088832))"
proof -
  from calcularPrecio_representa [OF representa_ejemplo]
  have "calcularPrecio almacen_ejemplo 15
        = Some (suma (suma (Finito 10)
                        (suma (suma (Finito 5) (redondear (2599 / 100)))
                           (redondear (8999 / 100))))
                  (Finito 45))"
    by (simp add: arbol_ejemplo_def)
  also have "suma (suma (Finito 10)
                        (suma (suma (Finito 5) (redondear (2599 / 100)))
                           (redondear (8999 / 100))))
                  (Finito 45) = Finito (6191745800192655 / 35184372088832)"
    by code_simp
  finally show ?thesis .
qed

lemma redondear_12098: "redondear (12098 / 100) = Finito (8513210670613791 / 70368744177664)"
  by code_simp

lemma redondear_17598: "redondear (17598 / 100) = Finito (6191745800192655 / 35184372088832)"
  by code_simp

text \<open>C1, as stated: the price of a container would be its handling cost plus the sum of
  the prices of its children.  The box "Sobres" costs 5.00 and holds two products at
  0.10 and 0.30.  The program adds \<open>5 + 0.1\<close>, rounds, adds \<open>0.3\<close>, rounds, and returns
  5.3999999999999995; the sum of the three numbers is not that, and the number nearest
  to the sum, 5.4, is not that either.\<close>

theorem C1_Sobres_counterexample:
  "almacen_sobres 33 = Caja ''Sobres'' [31, 32] (Finito 5) tipoEmpaque_por_defecto 10
   \<and> calcularPrecio almacen_sobres 31 = Some (Finito (3602879701896397 / 2 ^ 55))
   \<and> calcularPrecio almacen_sobres 32 = Some (Finito (5404319552844595 / 2 ^ 54))
   \<and> calcularPrecio almacen_sobres 33 = Some (Finito (6079859496950169 / 2 ^ 50))
   \<and> calcularPrecio almacen_sobres 33
       \<noteq> Some (Finito (5 + (3602879701896397 / 2 ^ 55 + 5404319552844595 / 2 ^ 54)))
   \<and> redondear (5 + (3602879701896397 / 2 ^ 55 + 5404319552844595 / 2 ^ 54))
       = Finito (6079859496950170 / 2 ^ 50)"
proof -
  have r1: "redondear (1 / 10) = Finito (3602879701896397 / 2 ^ 55)"
    and r3: "redondear (3 / 10) = Finito (5404319552844595 / 2 ^ 54)"
    by code_simp+
  have obj: "almacen_sobres 33 = Caja ''Sobres'' [31, 32] (Finito 5) tipoEmpaque_por_defecto 10"
    by (simp add: almacen_sobres_def)
  have p1: "calcularPrecio almacen_sobres 31 = Some (Finito (3602879701896397 / 2 ^ 55))"
    by (subst calcularPrecio.simps) (simp add: almacen_sobres_def r1)
  have p3: "calcularPrecio almacen_sobres 32 = Some (Finito (5404319552844595 / 2 ^ 54))"
    by (subst calcularPrecio.simps) (simp add: almacen_sobres_def r3)
  have s: "suma (suma (Finito 5) (Finito (3602879701896397 / 2 ^ 55)))
             (Finito (5404319552844595 / 2 ^ 54)) = Finito (6079859496950169 / 2 ^ 50)"
    by code_simp
  have p: "calcularPrecio almacen_sobres 33 = Some (Finito (6079859496950169 / 2 ^ 50))"
    unfolding calcularPrecio_Caja [of almacen_sobres 33, OF obj]
    by (simp only: bucle.simps p1 p3 Option.bind.simps s)
  have e: "redondear (5 + (3602879701896397 / 2 ^ 55 + 5404319552844595 / 2 ^ 54))
       = Finito (6079859496950170 / 2 ^ 50)"
    by code_simp
  have d: "calcularPrecio almacen_sobres 33
       \<noteq> Some (Finito (5 + (3602879701896397 / 2 ^ 55 + 5404319552844595 / 2 ^ 54)))"
    unfolding p by simp
  from obj p1 p3 p d e show ?thesis by (intro conjI)
qed

text \<open>C1, amended.  The price of a \<open>Caja\<close> is obtained from its \<open>costoCaja\<close> by adding the
  prices of its direct children one after the other, in the order of \<open>contenido\<close>, with
  the addition of binary64 numbers (the exact sum rounded to the nearest number, an
  infinity on overflow), whenever the children's prices are returned.  When no partial
  sum rounds, it is the handling cost plus the sum of the children's prices.  On every
  store that unfolds to a tree, however deep, the price is returned and is the same
  aggregate of the whole tree, and it is the exact one when no addition in the tree
  rounds.\<close>

theorem C1_Caja_calcularPrecio:
  "(h c = Caja n cs costo te cap \<and> map (calcularPrecio h) cs = map Some ps
      \<longrightarrow> calcularPrecio h c = Some (foldl suma costo ps))
   \<and> (h2 c2 = Caja n2 cs2 (Finito a) te2 cap2
       \<and> map (calcularPrecio h2) cs2 = map Some (map Finito qs) \<and> sumas_exactas a qs
      \<longrightarrow> calcularPrecio h2 c2 = Some (Finito (a + sum_list qs)))
   \<and> (representa h3 t \<longrightarrow> calcularPrecio h3 (raiz t) = Some (precio_arbol t))
   \<and> (representa h4 t4 \<and> exacto t4
      \<longrightarrow> calcularPrecio h4 (raiz t4) = Some (Finito (precio_exacto t4)))
   \<and> suma (Finito x) (Finito y) = redondear (x + y)"
proof (intro conjI impI)
  assume "h c = Caja n cs costo te cap \<and> map (calcularPrecio h) cs = map Some ps"
  then show "calcularPrecio h c = Some (foldl suma costo ps)"
    by (simp add: calcularPrecio_Caja bucle_Some)
next
  assume a: "h2 c2 = Caja n2 cs2 (Finito a) te2 cap2
       \<and> map (calcularPrecio h2) cs2 = map Some (map Finito qs) \<and> sumas_exactas a qs"
  then have "calcularPrecio h2 c2 = Some (foldl suma (Finito a) (map Finito qs))"
    by (simp add: calcularPrecio_Caja bucle_Some)
  with a show "calcularPrecio h2 c2 = Some (Finito (a + sum_list qs))"
    by (simp add: foldl_suma_exacta)
next
  assume "representa h3 t"
  then show "calcularPrecio h3 (raiz t) = Some (precio_arbol t)"
    by (rule calcularPrecio_representa)
next
  assume "representa h4 t4 \<and> exacto t4"
  then show "calcularPrecio h4 (raiz t4) = Some (Finito (precio_exacto t4))"
    by (simp add: calcularPrecio_representa precio_arbol_exacto)
next
  show "suma (Finito x) (Finito y) = redondear (x + y)"
    by simp
qed

theorem C1_Caja_calcularPrecio_witness:
  "(almacen_ejemplo 13 = Caja ''Peripherals'' [11, 12] (Finito 5) tipoEmpaque_por_defecto 5
    \<and> map (calcularPrecio almacen_ejemplo) [11, 12]
        = map Some [redondear (2599 / 100), redondear (8999 / 100)])
   \<and> calcularPrecio almacen_ejemplo 13 = Some (Finito (4256605335306895 / 2 ^ 45))
   \<and> (almacen_estuche 36 = Caja ''Estuche'' [34, 35] (Finito 5) tipoEmpaque_por_defecto 10
    \<and> map (calcularPrecio almacen_estuche) [34, 35] = map Some (map Finito [3 / 2, 9 / 4])
    \<and> sumas_exactas 5 [3 / 2, 9 / 4])
   \<and> calcularPrecio almacen_estuche 36 = Some (Finito (35 / 4))
   \<and> representa almacen_ejemplo arbol_ejemplo
   \<and> calcularPrecio almacen_ejemplo 15 = Some (Finito (6191745800192655 / 2 ^ 45))
   \<and> (representa almacen_estuche arbol_estuche \<and> exacto arbol_estuche)
   \<and> precio_exacto arbol_estuche = 35 / 4"
proof -
  note T = C1_Caja_calcularPrecio [of almacen_ejemplo 13 "''Peripherals''" "[11, 12]"
      "Finito 5" tipoEmpaque_por_defecto 5 "[redondear (2599 / 100), redondear (8999 / 100)]"
      almacen_estuche 36 "''Estuche''" "[34, 35]" 5 tipoEmpaque_por_defecto 10
      "[3 / 2, 9 / 4]" almacen_ejemplo arbol_ejemplo almacen_estuche arbol_estuche 0 0]
  have o1: "almacen_ejemplo 13
      = Caja ''Peripherals'' [11, 12] (Finito 5) tipoEmpaque_por_defecto 5"
    by (simp add: almacen_ejemplo_def)
  have p1: "calcularPrecio almacen_ejemplo 11 = Some (redondear (2599 / 100))"
    by (subst calcularPrecio.simps) (simp add: almacen_ejemplo_def)
  have p2: "calcularPrecio almacen_ejemplo 12 = Some (redondear (8999 / 100))"
    by (subst calcularPrecio.simps) (simp add: almacen_ejemplo_def)
  have m1: "map (calcularPrecio almacen_ejemplo) [11, 12]
        = map Some [redondear (2599 / 100), redondear (8999 / 100)]"
    by (simp add: p1 p2)
  have s1: "foldl suma (Finito 5) [redondear (2599 / 100), redondear (8999 / 100)]
      = Finito (4256605335306895 / 2 ^ 45)"
    by code_simp
  note r1 = T [THEN conjunct1, THEN mp, OF conjI [OF o1 m1], unfolded s1]
  have o2: "almacen_estuche 36
      = Caja ''Estuche'' [34, 35] (Finito 5) tipoEmpaque_por_defecto 10"
    by (simp add: almacen_estuche_def)
  have q1: "calcularPrecio almacen_estuche 34 = Some (Finito (3 / 2))"
    by (subst calcularPrecio.simps) (simp add: almacen_estuche_def)
  have q2: "calcularPrecio almacen_estuche 35 = Some (Finito (9 / 4))"
    by (subst calcularPrecio.simps) (simp add: almacen_estuche_def)
  have m2: "map (calcularPrecio almacen_estuche) [34, 35] = map Some (map Finito [3 / 2, 9 / 4])"
    by (simp add: q1 q2)
  have n2: "(5 :: rat) + sum_list [3 / 2, 9 / 4] = 35 / 4"
    by simp
  note r2 = T [THEN conjunct2, THEN conjunct1, THEN mp,
      OF conjI [OF o2 conjI [OF m2 sumas_estuche]], unfolded n2]
  have s3: "precio_arbol arbol_ejemplo = Finito (6191745800192655 / 2 ^ 45)"
    using calcularPrecio_representa [OF representa_ejemplo] precio_Shipment
    by (simp add: arbol_ejemplo_def)
  have raiz3: "raiz arbol_ejemplo = 15"
    by (simp add: arbol_ejemplo_def)
  note r3 = T [THEN conjunct2, THEN conjunct2, THEN conjunct1, THEN mp,
      OF representa_ejemplo, unfolded s3 raiz3]
  have n4: "precio_exacto arbol_estuche = 35 / 4"
    by (simp add: arbol_estuche_def)
  show ?thesis
    by (intro conjI o1 m1 r1 o2 m2 sumas_estuche r2 representa_ejemplo r3
        representa_estuche exacto_estuche n4)
qed

lemma construir_ejemplo_almacen: "construir_ejemplo = Some almacen_ejemplo"
  by (simp add: construir_ejemplo_def almacen_ejemplo_def new_Producto_def new_Caja_def
      agregar_def obtenerNombre_def categoria_por_defecto_def capacidadMaxima_por_defecto_def)

text \<open>C7, as stated: the price of "Peripherals" would be the number \<open>120.98\<close>.  The
  program's additions \<open>5 + 25.99\<close> and \<open>30.99 + 89.99\<close> round to binary64, and the result
  is the number just below \<open>120.98\<close>.\<close>

theorem C7_Peripherals_counterexample:
  "construir_ejemplo = Some almacen_ejemplo
   \<and> calcularPrecio almacen_ejemplo 13 \<noteq> Some (redondear (12098 / 100))"
  unfolding construir_ejemplo_almacen precio_Peripherals redondear_12098
  by simp

text \<open>C7, amended.  In the example of the specification the price of "Peripherals" is
  the binary64 number \<open>4256605335306895 / 2^45\<close> (printed 120.97999999999999), one unit in
  the last place below the number \<open>120.98\<close>; \<open>toFixed(2)\<close> prints it as \<open>120.98\<close>.  The
  price of "Shipment" is the number \<open>175.98\<close>.\<close>

theorem C7_ejemplo:
  "construir_ejemplo = Some almacen_ejemplo
   \<and> calcularPrecio almacen_ejemplo 13 = Some (Finito (4256605335306895 / 2 ^ 45))
   \<and> redondear (12098 / 100) = Finito (4256605335306895 / 2 ^ 45 + 1 / 2 ^ 46)
   \<and> toFixed (Finito (4256605335306895 / 2 ^ 45)) 2 = ''120.98''
   \<and> calcularPrecio almacen_ejemplo 15 = Some (redondear (17598 / 100))"
proof -
  have "toFixed (Finito (4256605335306895 / 2 ^ 45)) 2 = ''120.98''"
    by code_simp
  then show ?thesis
    unfolding construir_ejemplo_almacen precio_Peripherals precio_Shipment redondear_12098
      redondear_17598
    by simp
qed

lemma agregar_con_espacio:
  "h c = Caja n cs costo te cap \<Longrightarrow> int (length cs) < cap \<Longrightarrow>
   agregar h c e =
     Some (h(c := Caja n (cs @ [e]) costo te cap),
           [Agregado (nombre ((h(c := Caja n (cs @ [e]) costo te cap)) e)) n])"
  by (simp add: agregar_def obtenerNombre_def)

lemma agregar_llena:
  "h c = Caja n cs costo te cap \<Longrightarrow> cap \<le> int (length cs) \<Longrightarrow>
   agregar h c e = Some (h, [CapacidadMaximaAlcanzada n cap])"
  by (simp add: agregar_def)

text \<open>C10.  On a \<open>Caja\<close> that is not full, \<open>agregar\<close> returns a store in which the
  container has the element appended at the end of \<open>contenido\<close>, with \<open>nombre\<close>,
  \<open>costoCaja\<close>, \<open>tipoEmpaque\<close>, \<open>capacidadMaxima\<close> and the earlier entries as they
  were, and in which every other object, the added element among them, is the object it
  was (an object has no field for a parent); one line is logged.\<close>

theorem C10_agregar_marco:
  "h c = Caja n cs costo te cap \<Longrightarrow> int (length cs) < cap \<Longrightarrow>
   \<exists>h' l. agregar h c e = Some (h', l)
     \<and> h' c = Caja n (cs @ [e]) costo te cap
     \<and> (\<forall>r. r \<noteq> c \<longrightarrow> h' r = h r)
     \<and> l = [Agregado (nombre (h' e)) n]"
  by (simp add: agregar_con_espacio)

lemma length_splice_js: "length (splice_js xs i n) \<le> length xs"
  by (simp add: splice_js_def)

lemma llamar_paso:
  assumes "es_Caja (h (destino l))"
  shows "\<exists>h' lg. llamar h l = Some (h', lg)
     \<and> (\<forall>r. es_Caja (h r) \<longrightarrow> es_Caja (h' r))
     \<and> (\<forall>r n cs k t cap. h r = Caja n cs k t cap \<and> int (length cs) \<le> cap
          \<longrightarrow> (\<exists>cs'. h' r = Caja n cs' k t cap \<and> int (length cs') \<le> cap))"
proof (cases l)
  case (Agregar c e)
  with assms obtain n cs k t cap where obj: "h c = Caja n cs k t cap"
    by (cases "h c") auto
  show ?thesis
  proof (cases "cap \<le> int (length cs)")
    case True
    then show ?thesis
      using obj Agregar by (simp add: agregar_llena)
  next
    case False
    then have "int (length cs) < cap" by simp
    from agregar_con_espacio [of h c, OF obj this]
    show ?thesis
      using obj Agregar False by auto
  qed
next
  case (Remover c e)
  with assms obtain n cs k t cap where obj: "h c = Caja n cs k t cap"
    by (cases "h c") auto
  show ?thesis
  proof (cases "indexOf cs e = - 1")
    case True
    then show ?thesis
      using obj Remover by (simp add: remover_def)
  next
    case False
    let ?cs = "splice_js cs (nat (indexOf cs e)) 1"
    have le: "int (length ?cs) \<le> int (length cs)"
      using length_splice_js [of cs "nat (indexOf cs e)" 1] by simp
    have paso: "llamar h l = Some (h(c := Caja n ?cs k t cap),
        [Removido (obtenerNombre (h(c := Caja n ?cs k t cap)) e)
           (obtenerNombre (h(c := Caja n ?cs k t cap)) c)])"
      using obj Remover False by (simp add: remover_def Let_def)
    show ?thesis
      unfolding paso using obj le by auto
  qed
qed

lemma secuencia_invariante:
  "\<forall>l \<in> set ls. es_Caja (h (destino l)) \<Longrightarrow>
   h c = Caja n cs costo te cap \<Longrightarrow> int (length cs) \<le> cap \<Longrightarrow>
   \<exists>h' cs'. secuencia h ls = Some h' \<and> h' c = Caja n cs' costo te cap
      \<and> int (length cs') \<le> cap"
proof (induction ls arbitrary: h cs)
  case Nil
  then show ?case by simp
next
  case (Cons l ls)
  from Cons.prems(1) have "es_Caja (h (destino l))" by simp
  from llamar_paso [of h l, OF this] obtain h1 lg where
    paso: "llamar h l = Some (h1, lg)"
    and cajas: "\<forall>r. es_Caja (h r) \<longrightarrow> es_Caja (h1 r)"
    and inv: "\<forall>r n cs k t cap. h r = Caja n cs k t cap \<and> int (length cs) \<le> cap
          \<longrightarrow> (\<exists>cs'. h1 r = Caja n cs' k t cap \<and> int (length cs') \<le> cap)"
    by blast
  from inv Cons.prems(2,3) obtain cs1 where
    c1: "h1 c = Caja n cs1 costo te cap" and l1: "int (length cs1) \<le> cap"
    by blast
  have "\<forall>l \<in> set ls. es_Caja (h1 (destino l))"
    using Cons.prems(1) cajas by simp
  from Cons.IH [OF this c1 l1] show ?case
    by (simp add: paso)
qed

text \<open>C2.  A \<open>Caja\<close> constructed with a positive \<open>capacidadMaxima\<close> (its \<open>contenido\<close>
  is empty then) never holds more than \<open>capacidadMaxima\<close> entries, after any sequence
  of \<open>agregar\<close> and \<open>remover\<close> calls on containers of the store, and every such
  sequence runs to its end.  An \<open>agregar\<close> on a full \<open>Caja\<close> returns the store as it
  was and logs the capacity diagnostic, which is how the program reports
  \<open>CapacityExceeded\<close>.\<close>

theorem C2_capacidad:
  "(h c = Caja n [] costo te cap \<and> 0 < cap \<and> (\<forall>l \<in> set ls. es_Caja (h (destino l)))
      \<longrightarrow> (\<exists>h' cs. secuencia h ls = Some h' \<and> h' c = Caja n cs costo te cap
             \<and> int (length cs) \<le> cap))
   \<and> (h2 c2 = Caja n2 cs2 costo2 te2 cap2 \<and> cap2 \<le> int (length cs2)
      \<longrightarrow> agregar h2 c2 e = Some (h2, [CapacidadMaximaAlcanzada n2 cap2]))"
proof (intro conjI impI)
  assume a: "h c = Caja n [] costo te cap \<and> 0 < cap
    \<and> (\<forall>l \<in> set ls. es_Caja (h (destino l)))"
  then have "int (length ([] :: ref list)) \<le> cap" by simp
  with a show "\<exists>h' cs. secuencia h ls = Some h' \<and> h' c = Caja n cs costo te cap
             \<and> int (length cs) \<le> cap"
    using secuencia_invariante [of ls h c n "[]" costo te cap] by blast
next
  assume "h2 c2 = Caja n2 cs2 costo2 te2 cap2 \<and> cap2 \<le> int (length cs2)"
  then show "agregar h2 c2 e = Some (h2, [CapacidadMaximaAlcanzada n2 cap2])"
    by (simp add: agregar_llena)
qed


theorem C10_agregar_marco_witness:
  "almacen_ejemplo 13 = Caja ''Peripherals'' [11, 12] (Finito 5) tipoEmpaque_por_defecto 5
   \<and> int (length [11 :: ref, 12]) < 5
   \<and> (\<exists>h' l. agregar almacen_ejemplo 13 14 = Some (h', l)
        \<and> h' 13 = Caja ''Peripherals'' ([11, 12] @ [14]) (Finito 5) tipoEmpaque_por_defecto 5
        \<and> (\<forall>r. r \<noteq> 13 \<longrightarrow> h' r = almacen_ejemplo r)
        \<and> l = [Agregado (nombre (h' 14)) ''Peripherals''])"
proof -
  have obj: "almacen_ejemplo 13 = Caja ''Peripherals'' [11, 12] (Finito 5) tipoEmpaque_por_defecto 5"
    by (simp add: almacen_ejemplo_def)
  have room: "int (length [11 :: ref, 12]) < 5" by simp
  from C10_agregar_marco [of almacen_ejemplo 13, OF obj room, of 14] obj room
  show ?thesis by blast
qed

theorem C2_capacidad_witness:
  "(almacen_caja_nueva 16 = Caja ''Nueva'' [] (Finito 1) tipoEmpaque_por_defecto 2 \<and> (0 :: int) < 2
    \<and> map destino [Agregar 16 11, Agregar 16 12, Agregar 16 14, Remover 16 11, Agregar 16 14]
        = [16, 16, 16, 16, 16]
    \<and> es_Caja (almacen_caja_nueva 16))
   \<and> (\<exists>h' cs. secuencia almacen_caja_nueva
           [Agregar 16 11, Agregar 16 12, Agregar 16 14, Remover 16 11, Agregar 16 14] = Some h'
        \<and> h' 16 = Caja ''Nueva'' cs (Finito 1) tipoEmpaque_por_defecto 2 \<and> int (length cs) \<le> 2)
   \<and> (almacen_caja_llena 16 = Caja ''Nueva'' [11, 12] (Finito 1) tipoEmpaque_por_defecto 2
        \<and> (2 :: int) \<le> int (length [11 :: ref, 12]))
   \<and> agregar almacen_caja_llena 16 14
        = Some (almacen_caja_llena, [CapacidadMaximaAlcanzada ''Nueva'' 2])"
proof -
  have a: "almacen_caja_nueva 16 = Caja ''Nueva'' [] (Finito 1) tipoEmpaque_por_defecto 2 \<and> (0 :: int) < 2
    \<and> (\<forall>l \<in> set [Agregar 16 11, Agregar 16 12, Agregar 16 14, Remover 16 11, Agregar 16 14].
          es_Caja (almacen_caja_nueva (destino l)))"
    by (simp add: almacen_caja_nueva_def new_Caja_def)
  have b: "almacen_caja_llena 16 = Caja ''Nueva'' [11, 12] (Finito 1) tipoEmpaque_por_defecto 2
        \<and> (2 :: int) \<le> int (length [11 :: ref, 12])"
    by (simp add: almacen_caja_llena_def)
  have c: "map destino [Agregar 16 11, Agregar 16 12, Agregar 16 14, Remover 16 11, Agregar 16 14]
        = [16, 16, 16, 16, 16] \<and> es_Caja (almacen_caja_nueva 16)"
    by (simp add: almacen_caja_nueva_def new_Caja_def)
  from C2_capacidad [of almacen_caja_nueva 16 "''Nueva''" "Finito 1" tipoEmpaque_por_defecto 2
      "[Agregar 16 11, Agregar 16 12, Agregar 16 14, Remover 16 11, Agregar 16 14]"
      almacen_caja_llena 16 "''Nueva''" "[11, 12]" "Finito 1" tipoEmpaque_por_defecto 2 14] a b c
  show ?thesis by blast
qed

lemma indexOf_desde_ausente: "x \<notin> set xs \<Longrightarrow> indexOf_desde xs x k = - 1"
  by (induction xs arbitrary: k) auto

lemma splice_js_Cons: "splice_js (y # ys) (Suc m) n = y # splice_js ys m n"
  by (simp add: splice_js_def)

lemma indexOf_desde_presente:
  "x \<in> set xs \<Longrightarrow>
   k \<le> indexOf_desde xs x k
   \<and> splice_js xs (nat (indexOf_desde xs x k - k)) 1 = remove1 x xs"
proof (induction xs arbitrary: k)
  case Nil
  then show ?case by simp
next
  case (Cons y ys)
  show ?case
  proof (cases "y = x")
    case True
    then show ?thesis by (simp add: splice_js_def)
  next
    case False
    with Cons.prems have "x \<in> set ys" by simp
    from Cons.IH [OF this, of "k + 1"]
    have le: "k + 1 \<le> indexOf_desde ys x (k + 1)"
      and sp: "splice_js ys (nat (indexOf_desde ys x (k + 1) - (k + 1))) 1 = remove1 x ys"
      by simp_all
    have "nat (indexOf_desde ys x (k + 1) - k)
        = Suc (nat (indexOf_desde ys x (k + 1) - (k + 1)))"
      using le by simp
    then show ?thesis
      using False le sp by (simp add: splice_js_Cons)
  qed
qed

lemma indexOf_ausente: "x \<notin> set xs \<Longrightarrow> indexOf xs x = - 1"
  by (simp add: indexOf_def indexOf_desde_ausente)

lemma indexOf_presente:
  "x \<in> set xs \<Longrightarrow> indexOf xs x \<noteq> - 1 \<and> splice_js xs (nat (indexOf xs x)) 1 = remove1 x xs"
  using indexOf_desde_presente [of x xs 0] by (simp add: indexOf_def)

text \<open>C4, as stated: a structurally identical occurrence would be removed.  In
  \<open>almacen_gemelos\<close> the box 23 holds the product 21, and the product 22 is a distinct
  object with the same fields.  By the specification's words \<open>remover\<close> with the element
  22 empties the box; the program finds nothing, leaves the box as it is and logs that
  the element was not found.\<close>

theorem C4_remover_counterexample:
  "almacen_gemelos 23 = Caja ''B'' [21] (Finito 0) tipoEmpaque_por_defecto 10
   \<and> almacen_gemelos 21 = almacen_gemelos 22
   \<and> quitar_primero (coincide almacen_gemelos 22) [21] = Some []
   \<and> remover almacen_gemelos 23 22 = Some (almacen_gemelos, [NoEncontrado ''A'' ''B''])"
  by (simp add: almacen_gemelos_def coincide_def remover_def indexOf_def obtenerNombre_def)

text \<open>C4, amended.  \<open>remover\<close> removes the first occurrence of the very reference it is
  given (\<open>indexOf\<close> compares by identity) and logs the removal; every other entry keeps
  its place.  When the reference is not among the contents, the store is unchanged;
  the method returns normally, the version of the order system logging that the element
  was not found and the version of \<open>sistema-con-diagramas.ts\<close> logging nothing.\<close>

theorem C4_remover:
  "h c = Caja n cs costo te cap \<Longrightarrow>
   (e \<in> set cs \<longrightarrow>
      remover h c e = Some (h(c := Caja n (remove1 e cs) costo te cap),
                            [Removido (nombre (h e)) n])
      \<and> remover_diagramas h c e = Some (h(c := Caja n (remove1 e cs) costo te cap),
                            [Removido (nombre (h e)) n]))
   \<and> (e \<notin> set cs \<longrightarrow>
      remover h c e = Some (h, [NoEncontrado (nombre (h e)) n])
      \<and> remover_diagramas h c e = Some (h, []))"
proof (intro conjI impI)
  assume obj: "h c = Caja n cs costo te cap" and "e \<in> set cs"
  from indexOf_presente [OF this(2)]
  have i: "indexOf cs e \<noteq> - 1" and s: "splice_js cs (nat (indexOf cs e)) 1 = remove1 e cs"
    by simp_all
  have nom: "nombre ((h(c := Caja n (remove1 e cs) costo te cap)) e) = nombre (h e)"
    using obj by simp
  show "remover h c e = Some (h(c := Caja n (remove1 e cs) costo te cap),
                            [Removido (nombre (h e)) n])"
    using obj i s nom by (simp add: remover_def Let_def obtenerNombre_def)
  show "remover_diagramas h c e = Some (h(c := Caja n (remove1 e cs) costo te cap),
                            [Removido (nombre (h e)) n])"
    using obj i s nom by (simp add: remover_diagramas_def Let_def obtenerNombre_def)
next
  assume obj: "h c = Caja n cs costo te cap" and "e \<notin> set cs"
  from indexOf_ausente [OF this(2)] have i: "indexOf cs e = - 1" .
  show "remover h c e = Some (h, [NoEncontrado (nombre (h e)) n])"
    using obj i by (simp add: remover_def obtenerNombre_def)
  show "remover_diagramas h c e = Some (h, [])"
    using obj i by (simp add: remover_diagramas_def)
qed

theorem C4_remover_witness:
  "almacen_caja_llena 16 = Caja ''Nueva'' [11, 12] (Finito 1) tipoEmpaque_por_defecto 2
   \<and> (12 \<in> set [11 :: ref, 12] \<and>
      remover almacen_caja_llena 16 12
        = Some (almacen_caja_llena(16 := Caja ''Nueva'' [11] (Finito 1) tipoEmpaque_por_defecto 2),
                [Removido ''Keyboard'' ''Nueva'']))
   \<and> (14 \<notin> set [11 :: ref, 12] \<and>
      remover almacen_caja_llena 16 14
        = Some (almacen_caja_llena, [NoEncontrado ''Book'' ''Nueva''])
      \<and> remover_diagramas almacen_caja_llena 16 14 = Some (almacen_caja_llena, []))"
proof -
  have obj: "almacen_caja_llena 16 = Caja ''Nueva'' [11, 12] (Finito 1) tipoEmpaque_por_defecto 2"
    by (simp add: almacen_caja_llena_def)
  have n12: "nombre (almacen_caja_llena 12) = ''Keyboard''"
    and n14: "nombre (almacen_caja_llena 14) = ''Book''"
    by (simp_all add: almacen_caja_llena_def almacen_ejemplo_def)
  from C4_remover [of almacen_caja_llena 16, OF obj, of 12]
       C4_remover [of almacen_caja_llena 16, OF obj, of 14] obj n12 n14
  show ?thesis by simp
qed


lemma foldl_append_concat: "foldl (@) acc xss = acc @ concat xss"
  by (induction xss arbitrary: acc) simp_all

lemma obtenerTodosLosProductos_Caja:
  "h c = Caja n cs costo te cap \<Longrightarrow>
   obtenerTodosLosProductos h c =
     bucle (\<lambda>productos elemento.
              case h elemento of
                Producto _ _ _ \<Rightarrow> Some (productos @ [elemento])
              | Caja _ _ _ _ _ \<Rightarrow>
                  Option.bind (obtenerTodosLosProductos h elemento) (\<lambda>ps.
                  Some (productos @ ps)))
           [] cs"
  by (subst obtenerTodosLosProductos.simps) simp

lemma obtenerTodosLosProductos_representa:
  "representa h t \<Longrightarrow> es_Caja (h (raiz t)) \<Longrightarrow>
   obtenerTodosLosProductos h (raiz t) = Some (hojas t)"
proof (induction t)
  case (Hoja r n p c)
  then show ?case by simp
next
  case (Rama r n ts costo te cap)
  have obj: "h r = Caja n (map raiz ts) costo te cap"
    and hijos: "\<And>s. s \<in> set ts \<Longrightarrow> representa h s"
    using Rama.prems by auto
  have cuerpo: "(case h (raiz s) of
                Producto _ _ _ \<Rightarrow> Some (productos @ [raiz s])
              | Caja _ _ _ _ _ \<Rightarrow>
                  Option.bind (obtenerTodosLosProductos h (raiz s)) (\<lambda>ps.
                  Some (productos @ ps))) = Some (productos @ hojas s)"
    if s: "s \<in> set ts" for productos s
  proof (cases s)
    case (Hoja r' n' p' c')
    with hijos [OF s] show ?thesis by simp
  next
    case (Rama r' n' ts' costo' te' cap')
    with hijos [OF s] have c: "es_Caja (h (raiz s))" by simp
    from Rama.IH [OF s hijos [OF s] c] c show ?thesis
      by (cases "h (raiz s)") simp_all
  qed
  show ?case
    by (simp add: obtenerTodosLosProductos_Caja [of h r, OF obj] bucle_foldl [where g = hojas]
        cuerpo foldl_append_concat)
qed

lemma length_hojas: "length (hojas t) = contar_hojas t"
proof (induction t)
  case (Hoja r n p c)
  then show ?case by simp
next
  case (Rama r n ts costo te cap)
  have "map (length \<circ> hojas) ts = map contar_hojas ts"
    using Rama.IH by simp
  then show ?case
    by (simp only: hojas.simps contar_hojas.simps length_concat map_map)
qed

lemma hojas_Producto: "representa h t \<Longrightarrow> x \<in> set (hojas t) \<Longrightarrow> \<not> es_Caja (h x)"
  by (induction t) auto

text \<open>C5.  On a store that unfolds to a tree from a \<open>Caja\<close>, \<open>obtenerTodosLosProductos\<close>
  returns the references of the Item leaves of the subtree in depth-first order, those
  of each child in the order of \<open>contenido\<close> and nested containers descended into; the
  length of the result is the number of Item leaves of the subtree, whatever the depth,
  and every reference returned denotes a \<open>Producto\<close>.\<close>

theorem C5_obtenerTodosLosProductos:
  "representa h (Rama r n ts costo te cap) \<Longrightarrow>
   obtenerTodosLosProductos h r = Some (hojas (Rama r n ts costo te cap))
   \<and> hojas (Rama r n ts costo te cap) = concat (map hojas ts)
   \<and> length (hojas (Rama r n ts costo te cap)) = contar_hojas (Rama r n ts costo te cap)
   \<and> (\<forall>x \<in> set (hojas (Rama r n ts costo te cap)). \<not> es_Caja (h x))"
proof -
  assume rep: "representa h (Rama r n ts costo te cap)"
  then have "es_Caja (h (raiz (Rama r n ts costo te cap)))" by simp
  from obtenerTodosLosProductos_representa [OF rep this] hojas_Producto [OF rep]
  show ?thesis
    by (simp add: length_hojas del: hojas.simps contar_hojas.simps) simp
qed

lemma hojas_ejemplo: "hojas arbol_ejemplo = [11, 12, 14]"
  by (simp add: arbol_ejemplo_def)

theorem C5_obtenerTodosLosProductos_witness:
  "representa almacen_ejemplo arbol_ejemplo
   \<and> obtenerTodosLosProductos almacen_ejemplo 15 = Some [11, 12, 14]
   \<and> length [11 :: ref, 12, 14] = contar_hojas arbol_ejemplo"
  using C5_obtenerTodosLosProductos [of almacen_ejemplo 15 "''Shipment''"
        "[Rama 13 ''Peripherals''
          [Hoja 11 ''Mouse'' (redondear (2599 / 100)) ''General'',
           Hoja 12 ''Keyboard'' (redondear (8999 / 100)) ''General'']
          (Finito 5) tipoEmpaque_por_defecto 5,
        Hoja 14 ''Book'' (Finito 45) ''General'']" "Finito 10" tipoEmpaque_por_defecto 10]
    representa_ejemplo
  by (simp add: arbol_ejemplo_def)

lemma estadisticas_vacio:
  "elementos g = [] \<Longrightarrow>
   obtenerEstadisticas h g =
     Some \<lparr>totalElementos = 0, totalProductos = 0, totalCajas = 0,
           precioPromedio = Finito 0\<rparr>"
  by (simp add: obtenerEstadisticas_def calcularPrecioTotal_def)

lemma estadisticas_promedio:
  "elementos g \<noteq> [] \<Longrightarrow> calcularPrecioTotal h g = Some p \<Longrightarrow>
   obtenerEstadisticas h g = Some e \<Longrightarrow>
   precioPromedio e = division p (Finito (of_nat (length (elementos g))))"
  by (auto simp add: obtenerEstadisticas_def Let_def
      split: Option.bind_splits prod.splits if_splits)

lemma division_finita:
  "elementos g \<noteq> [] \<Longrightarrow>
   division (Finito q) (Finito (of_nat (length (elementos g))))
   = redondear (q / of_nat (length (elementos g)))"
  by simp

text \<open>C9.  For an order with no element \<open>obtenerEstadisticas\<close> returns all counts and
  \<open>precioPromedio\<close> equal to \<open>0\<close>: the division is made only when \<open>totalElementos > 0\<close>,
  and then \<open>precioPromedio\<close> is the quotient of the total by the number of top-level
  elements, rounded when the total is finite.  The unguarded \<open>0 / 0\<close> is \<open>NaN\<close>.\<close>

theorem C9_obtenerEstadisticas:
  "(elementos g = [] \<longrightarrow>
      obtenerEstadisticas h g =
        Some \<lparr>totalElementos = 0, totalProductos = 0, totalCajas = 0,
              precioPromedio = Finito 0\<rparr>)
   \<and> (elementos g2 \<noteq> [] \<and> calcularPrecioTotal h2 g2 = Some p
        \<and> obtenerEstadisticas h2 g2 = Some e
      \<longrightarrow> precioPromedio e = division p (Finito (of_nat (length (elementos g2))))
          \<and> (\<forall>q. p = Finito q
                \<longrightarrow> precioPromedio e = redondear (q / of_nat (length (elementos g2)))))
   \<and> division (Finito 0) (Finito 0) = NaN"
proof (intro conjI impI allI)
  assume "elementos g = []"
  then show "obtenerEstadisticas h g =
        Some \<lparr>totalElementos = 0, totalProductos = 0, totalCajas = 0,
              precioPromedio = Finito 0\<rparr>"
    by (rule estadisticas_vacio)
next
  assume a: "elementos g2 \<noteq> [] \<and> calcularPrecioTotal h2 g2 = Some p
        \<and> obtenerEstadisticas h2 g2 = Some e"
  then show d: "precioPromedio e = division p (Finito (of_nat (length (elementos g2))))"
    using estadisticas_promedio [of g2 h2 p e] by blast
  fix q assume "p = Finito q"
  with a d show "precioPromedio e = redondear (q / of_nat (length (elementos g2)))"
    using division_finita [of g2 q] by simp
next
  show "division (Finito 0) (Finito 0) = NaN" by simp
qed

lemma suma_0_17598:
  "suma (Finito 0) (Finito (6191745800192655 / 35184372088832))
   = Finito (6191745800192655 / 35184372088832)"
  by code_simp

lemma redondear_idem_17598:
  "redondear (6191745800192655 / 35184372088832) = Finito (6191745800192655 / 35184372088832)"
  by code_simp

lemma elementos_pedido_ejemplo: "elementos pedido_ejemplo = [15]"
  by (simp add: pedido_ejemplo_def agregarElemento_def pedido_vacio_def new_GestorPedidos_def)

lemma total_ejemplo:
  "calcularPrecioTotal almacen_ejemplo pedido_ejemplo
   = Some (Finito (6191745800192655 / 35184372088832))"
  unfolding calcularPrecioTotal_def elementos_pedido_ejemplo
  by (simp add: precio_Shipment redondear_idem_17598)

lemma productos_ejemplo: "obtenerTodosLosProductos almacen_ejemplo 15 = Some [11, 12, 14]"
  using obtenerTodosLosProductos_representa [OF representa_ejemplo]
  by (simp add: arbol_ejemplo_def almacen_ejemplo_def)

lemma estadisticas_ejemplo:
  "obtenerEstadisticas almacen_ejemplo pedido_ejemplo =
     Some \<lparr>totalElementos = 1, totalProductos = 3, totalCajas = 1,
           precioPromedio = Finito (6191745800192655 / 35184372088832)\<rparr>"
proof -
  have o: "almacen_ejemplo 15
      = Caja ''Shipment'' [13, 14] (Finito 10) tipoEmpaque_por_defecto 10"
    by (simp add: almacen_ejemplo_def)
  show ?thesis
    unfolding obtenerEstadisticas_def total_ejemplo elementos_pedido_ejemplo
    by (simp add: o productos_ejemplo redondear_idem_17598)
qed

theorem C9_obtenerEstadisticas_witness:
  "elementos pedido_vacio = []
   \<and> obtenerEstadisticas almacen_ejemplo pedido_vacio =
        Some \<lparr>totalElementos = 0, totalProductos = 0, totalCajas = 0,
              precioPromedio = Finito 0\<rparr>
   \<and> (elementos pedido_ejemplo \<noteq> []
      \<and> calcularPrecioTotal almacen_ejemplo pedido_ejemplo
          = Some (Finito (6191745800192655 / 35184372088832))
      \<and> obtenerEstadisticas almacen_ejemplo pedido_ejemplo =
          Some \<lparr>totalElementos = 1, totalProductos = 3, totalCajas = 1,
                precioPromedio = Finito (6191745800192655 / 35184372088832)\<rparr>)
   \<and> Finito (6191745800192655 / 35184372088832)
       = division (Finito (6191745800192655 / 35184372088832))
           (Finito (of_nat (length (elementos pedido_ejemplo))))
   \<and> Finito (6191745800192655 / 35184372088832)
       = redondear (6191745800192655 / 35184372088832 / of_nat (length (elementos pedido_ejemplo)))"
proof -
  have v: "elementos pedido_vacio = []"
    by (simp add: pedido_vacio_def new_GestorPedidos_def)
  have e: "elementos pedido_ejemplo \<noteq> []"
    by (simp add: elementos_pedido_ejemplo)
  note T = C9_obtenerEstadisticas [of pedido_vacio almacen_ejemplo pedido_ejemplo
      almacen_ejemplo "Finito (6191745800192655 / 35184372088832)"
      "\<lparr>totalElementos = 1, totalProductos = 3, totalCajas = 1,
                precioPromedio = Finito (6191745800192655 / 35184372088832)\<rparr>"]
  note r1 = T [THEN conjunct1, THEN mp, OF v]
  note r2 = T [THEN conjunct2, THEN conjunct1, THEN mp,
      OF conjI [OF e conjI [OF total_ejemplo estadisticas_ejemplo]]]
  have r2a: "Finito (6191745800192655 / 35184372088832)
       = division (Finito (6191745800192655 / 35184372088832))
           (Finito (of_nat (length (elementos pedido_ejemplo))))"
    using r2 [THEN conjunct1] by (simp only: Estadisticas.select_convs)
  have r2b: "Finito (6191745800192655 / 35184372088832)
       = redondear (6191745800192655 / 35184372088832 / of_nat (length (elementos pedido_ejemplo)))"
    using r2 [THEN conjunct2, THEN spec, THEN mp, OF refl]
    by (simp only: Estadisticas.select_convs)
  show ?thesis
    by (intro conjI v r1 e total_ejemplo estadisticas_ejemplo r2a r2b)
qed

lemma bucle_snoc:
  "bucle cuerpo s (xs @ [x]) = Option.bind (bucle cuerpo s xs) (\<lambda>s'. cuerpo s' x)"
  by (induction xs arbitrary: s) (simp_all split: Option.bind_split)

lemma raiz_insertar: "raiz (insertar c tx t) = raiz t"
  by (cases t) simp_all

lemma representa_fuera:
  "representa h t \<Longrightarrow> c \<notin> referencias t \<Longrightarrow> representa (h(c := ob)) t"
  by (induction t) auto

lemma representa_insertar:
  assumes "h c = Caja n cs costo te cap" and "representa h tx" and "c \<notin> referencias tx"
    and "representa h t"
  shows "representa (h(c := Caja n (cs @ [raiz tx]) costo te cap)) (insertar c tx t)"
proof -
  define h1 where "h1 = h(c := Caja n (cs @ [raiz tx]) costo te cap)"
  have h1c: "h1 c = Caja n (cs @ [raiz tx]) costo te cap"
    and h1o: "\<And>r. r \<noteq> c \<Longrightarrow> h1 r = h r"
    by (simp_all add: h1_def)
  have tx: "representa h1 tx"
    unfolding h1_def using assms(2,3) by (rule representa_fuera)
  have "representa h s \<Longrightarrow> representa h1 (insertar c tx s)" for s
  proof (induction s)
    case (Hoja r n' p k)
    with assms(1) have "r \<noteq> c" by auto
    with Hoja h1o show ?case by simp
  next
    case (Rama r n' ts costo' te' cap')
    have obj: "h r = Caja n' (map raiz ts) costo' te' cap'"
      using Rama.prems by simp
    have hijos: "representa h1 (insertar c tx s)" if s: "s \<in> set ts" for s
    proof -
      from Rama.prems s have "representa h s" by simp
      from Rama.IH [OF s this] show ?thesis .
    qed
    have raices: "map (raiz \<circ> insertar c tx) ts = map raiz ts"
      by (simp add: raiz_insertar)
    show ?case
    proof (cases "r = c")
      case True
      with obj assms(1) have "n' = n" "map raiz ts = cs" "costo' = costo" "te' = te"
        "cap' = cap"
        by simp_all
      with True hijos tx h1c raices show ?thesis
        by simp
    next
      case False
      with obj hijos h1o [OF False] raices show ?thesis
        by simp
    qed
  qed
  from this [OF assms(4)] show ?thesis
    unfolding h1_def .
qed

lemma calcularPrecioTotal_representa:
  "elementos g = map raiz ts \<Longrightarrow> (\<And>t. t \<in> set ts \<Longrightarrow> representa h t) \<Longrightarrow>
   calcularPrecioTotal h g = Some (foldl suma (Finito 0) (map precio_arbol ts))"
  by (simp add: calcularPrecioTotal_def bucle_foldl [where g = precio_arbol]
      calcularPrecio_representa)

lemma total_suma:
  "map (calcularPrecio h) (elementos g) = map Some ps \<Longrightarrow>
   calcularPrecioTotal h g = Some (foldl suma (Finito 0) ps)"
  by (simp add: calcularPrecioTotal_def bucle_Some)

lemma total_suma_exacta:
  "map (calcularPrecio h) (elementos g) = map Some (map Finito qs) \<Longrightarrow> sumas_exactas 0 qs \<Longrightarrow>
   calcularPrecioTotal h g = Some (Finito (sum_list qs))"
  using total_suma [of h g "map Finito qs"] foldl_suma_exacta [of 0 qs] by simp

lemma total_agregarElemento:
  "calcularPrecioTotal h g = Some tot \<Longrightarrow> calcularPrecio h e = Some p \<Longrightarrow>
   calcularPrecioTotal h (fst (agregarElemento h g e)) = Some (suma tot p)"
  by (simp add: calcularPrecioTotal_def agregarElemento_def bucle_snoc)

lemma total_agregar_exacto:
  "calcularPrecioTotal h g = Some (Finito a) \<Longrightarrow> calcularPrecio h e = Some (Finito q) \<Longrightarrow>
   redondear (a + q) = Finito (a + q) \<Longrightarrow>
   calcularPrecioTotal h (fst (agregarElemento h g e)) = Some (Finito (a + q))"
  using total_agregarElemento [of h g "Finito a" e "Finito q"] by simp

lemma total_vivo:
  assumes "elementos g = map raiz ts" and "\<forall>t \<in> set ts. representa h t"
    and "representa h tx" and "c \<notin> referencias tx"
    and "h c = Caja n cs costo te cap" and "int (length cs) < cap"
    and "agregar h c (raiz tx) = Some (h', l)"
  shows "calcularPrecioTotal h' g
         = Some (foldl suma (Finito 0) (map (\<lambda>t. precio_arbol (insertar c tx t)) ts))"
proof -
  have h': "h' = h(c := Caja n (cs @ [raiz tx]) costo te cap)"
    using assms(7) agregar_con_espacio [of h c, OF assms(5,6), of "raiz tx"] by simp
  have "elementos g = map raiz (map (insertar c tx) ts)"
    using assms(1) by (simp add: raiz_insertar)
  moreover have "representa h' t" if "t \<in> set (map (insertar c tx) ts)" for t
    using that assms(2) representa_insertar [OF assms(5,3,4)] unfolding h' by auto
  ultimately have "calcularPrecioTotal h' g
      = Some (foldl suma (Finito 0) (map precio_arbol (map (insertar c tx) ts)))"
    by (rule calcularPrecioTotal_representa)
  then show ?thesis by (simp add: comp_def)
qed

lemma representa_garantia: "representa almacen_garantia arbol_ejemplo"
  by (simp add: almacen_garantia_def new_Producto_def almacen_ejemplo_def arbol_ejemplo_def)

lemma total_garantia:
  "calcularPrecioTotal almacen_garantia pedido_ejemplo
   = Some (Finito (6191745800192655 / 2 ^ 45))"
proof -
  have e: "elementos pedido_ejemplo = map raiz [arbol_ejemplo]"
    by (simp add: elementos_pedido_ejemplo arbol_ejemplo_def)
  have t: "calcularPrecioTotal almacen_garantia pedido_ejemplo
      = Some (foldl suma (Finito 0) (map precio_arbol [arbol_ejemplo]))"
    by (rule calcularPrecioTotal_representa [OF e]) (simp add: representa_garantia)
  have p: "precio_arbol arbol_ejemplo = Finito (6191745800192655 / 35184372088832)"
    using calcularPrecio_representa [OF representa_ejemplo] precio_Shipment
    by (simp add: arbol_ejemplo_def)
  show ?thesis
    unfolding t by (simp add: p redondear_idem_17598)
qed

text \<open>C3, as stated: adding an element would increase the total by exactly the price
  of the element.  The order of the example holds the box "Shipment" and its total is
  175.98; the guarantee costs 99.99.  After \<open>agregarElemento\<close> the total is
  275.96999999999997, and the difference to the earlier total is not the price of the
  guarantee: the addition has rounded.\<close>

theorem C3_Garantia_counterexample:
  "calcularPrecioTotal almacen_garantia pedido_ejemplo
     = Some (Finito (6191745800192655 / 2 ^ 45))
   \<and> calcularPrecio almacen_garantia 18 = Some (Finito (7036170730324623 / 2 ^ 46))
   \<and> calcularPrecioTotal almacen_garantia
        (fst (agregarElemento almacen_garantia pedido_ejemplo 18))
     = Some (Finito (4854915582677483 / 2 ^ 44))
   \<and> (4854915582677483 / 2 ^ 44 - 6191745800192655 / 2 ^ 45 :: rat)
       \<noteq> 7036170730324623 / 2 ^ 46"
proof -
  have r: "redondear (9999 / 100) = Finito (7036170730324623 / 2 ^ 46)"
    by code_simp
  have p: "calcularPrecio almacen_garantia 18 = Some (Finito (7036170730324623 / 2 ^ 46))"
    by (subst calcularPrecio.simps) (simp add: almacen_garantia_def new_Producto_def r)
  have s: "suma (Finito (6191745800192655 / 2 ^ 45)) (Finito (7036170730324623 / 2 ^ 46))
      = Finito (4854915582677483 / 2 ^ 44)"
    by code_simp
  note t = total_agregarElemento [OF total_garantia p, unfolded s]
  have d: "(4854915582677483 / 2 ^ 44 - 6191745800192655 / 2 ^ 45 :: rat)
       \<noteq> 7036170730324623 / 2 ^ 46"
    by simp
  from total_garantia p t d show ?thesis by (intro conjI)
qed

text \<open>C3, amended.  \<open>calcularPrecioTotal\<close> is obtained from \<open>0\<close> by adding the prices of
  the top-level elements one after the other, in their order, with the addition of
  binary64 numbers; it is their sum when no partial sum rounds.  After
  \<open>agregarElemento\<close> the total is the binary64 sum of the earlier total and the price the
  element has at that time: the increase is exactly that price when this sum does not
  round.  The order keeps references, not prices: when a container of the store (at the
  top level of the order or nested below it) receives a new element through \<open>agregar\<close>
  after the order was filled, the total computed afterwards is that of the trees with
  the new element in place.\<close>

theorem C3_calcularPrecioTotal:
  "(map (calcularPrecio h) (elementos g) = map Some ps
      \<longrightarrow> calcularPrecioTotal h g = Some (foldl suma (Finito 0) ps))
   \<and> (map (calcularPrecio h1) (elementos g1) = map Some (map Finito qs) \<and> sumas_exactas 0 qs
      \<longrightarrow> calcularPrecioTotal h1 g1 = Some (Finito (sum_list qs)))
   \<and> (calcularPrecioTotal h2 g2 = Some tot \<and> calcularPrecio h2 e = Some p
      \<longrightarrow> calcularPrecioTotal h2 (fst (agregarElemento h2 g2 e)) = Some (suma tot p))
   \<and> (calcularPrecioTotal h4 g4 = Some (Finito a) \<and> calcularPrecio h4 e4 = Some (Finito q)
       \<and> redondear (a + q) = Finito (a + q)
      \<longrightarrow> calcularPrecioTotal h4 (fst (agregarElemento h4 g4 e4)) = Some (Finito (a + q)))
   \<and> (elementos g3 = map raiz ts \<and> (\<forall>t \<in> set ts. representa h3 t)
       \<and> representa h3 tx \<and> c \<notin> referencias tx
       \<and> h3 c = Caja n cs costo te cap \<and> int (length cs) < cap
       \<and> agregar h3 c (raiz tx) = Some (h', l)
      \<longrightarrow> calcularPrecioTotal h' g3
          = Some (foldl suma (Finito 0) (map (\<lambda>t. precio_arbol (insertar c tx t)) ts)))"
  using total_suma [of h g ps] total_suma_exacta [of h1 g1 qs]
    total_agregarElemento [of h2 g2 tot e p] total_agregar_exacto [of h4 g4 a e4 q]
    total_vivo [of g3 ts h3 tx c n cs costo te cap h' l]
  by blast

lemma precio_con_cable:
  "foldl suma (Finito 0) (map (\<lambda>t. precio_arbol (insertar 13 hoja_cable t)) [arbol_ejemplo])
   = Finito (6895081398248407 / 35184372088832)"
proof -
  have "foldl suma (Finito 0)
          (map (\<lambda>t. precio_arbol (insertar 13 hoja_cable t)) [arbol_ejemplo])
      = suma (Finito 0)
          (suma (suma (Finito 10)
                   (suma (suma (suma (Finito 5) (redondear (2599 / 100)))
                            (redondear (8999 / 100)))
                      (redondear (1999 / 100))))
             (Finito 45))"
    by (simp add: arbol_ejemplo_def hoja_cable_def)
  also have "\<dots> = Finito (6895081398248407 / 35184372088832)"
    by code_simp
  finally show ?thesis .
qed

theorem C3_calcularPrecioTotal_witness:
  "(map (calcularPrecio almacen_ejemplo) (elementos pedido_ejemplo)
      = map Some [Finito (6191745800192655 / 35184372088832)]
    \<and> calcularPrecioTotal almacen_ejemplo pedido_ejemplo
      = Some (Finito (6191745800192655 / 35184372088832)))
   \<and> (map (calcularPrecio almacen_estuche) (elementos pedido_lapiz)
      = map Some (map Finito [3 / 2])
    \<and> sumas_exactas 0 [3 / 2]
    \<and> calcularPrecioTotal almacen_estuche pedido_lapiz = Some (Finito (3 / 2)))
   \<and> (calcularPrecioTotal almacen_garantia pedido_ejemplo
        = Some (Finito (6191745800192655 / 2 ^ 45))
    \<and> calcularPrecio almacen_garantia 18 = Some (Finito (7036170730324623 / 2 ^ 46))
    \<and> calcularPrecioTotal almacen_garantia
          (fst (agregarElemento almacen_garantia pedido_ejemplo 18))
        = Some (Finito (4854915582677483 / 2 ^ 44)))
   \<and> (calcularPrecio almacen_estuche 35 = Some (Finito (9 / 4))
    \<and> redondear (3 / 2 + 9 / 4) = Finito (3 / 2 + 9 / 4)
    \<and> calcularPrecioTotal almacen_estuche (fst (agregarElemento almacen_estuche pedido_lapiz 35))
        = Some (Finito (15 / 4)))
   \<and> (elementos pedido_ejemplo = map raiz [arbol_ejemplo]
    \<and> representa almacen_cable arbol_ejemplo
    \<and> representa almacen_cable hoja_cable \<and> 13 \<notin> referencias hoja_cable
    \<and> almacen_cable 13 = Caja ''Peripherals'' [11, 12] (Finito 5) tipoEmpaque_por_defecto 5
    \<and> int (length [11 :: ref, 12]) < 5
    \<and> agregar almacen_cable 13 (raiz hoja_cable)
        = Some (almacen_cable(13 := Caja ''Peripherals'' [11, 12, 17] (Finito 5)
                                 tipoEmpaque_por_defecto 5),
                [Agregado ''Cable'' ''Peripherals''])
    \<and> calcularPrecioTotal
          (almacen_cable(13 := Caja ''Peripherals'' [11, 12, 17] (Finito 5)
                            tipoEmpaque_por_defecto 5))
          pedido_ejemplo
        = Some (Finito (6895081398248407 / 35184372088832)))"
proof -
  note T = C3_calcularPrecioTotal [of almacen_ejemplo pedido_ejemplo
      "[Finito (6191745800192655 / 35184372088832)]"
      almacen_estuche pedido_lapiz "[3 / 2]"
      almacen_garantia pedido_ejemplo "Finito (6191745800192655 / 2 ^ 45)" 18
      "Finito (7036170730324623 / 2 ^ 46)"
      almacen_estuche pedido_lapiz "3 / 2" 35 "9 / 4"
      pedido_ejemplo "[arbol_ejemplo]" almacen_cable
      hoja_cable 13 "''Peripherals''" "[11, 12]" "Finito 5" tipoEmpaque_por_defecto 5
      "almacen_cable(13 := Caja ''Peripherals'' [11, 12, 17] (Finito 5)
                            tipoEmpaque_por_defecto 5)"
      "[Agregado ''Cable'' ''Peripherals'']"]
  have a1: "map (calcularPrecio almacen_ejemplo) (elementos pedido_ejemplo)
      = map Some [Finito (6191745800192655 / 35184372088832)]"
    by (simp add: elementos_pedido_ejemplo precio_Shipment)
  have f1: "foldl suma (Finito 0) [Finito (6191745800192655 / 35184372088832)]
      = Finito (6191745800192655 / 35184372088832)"
    by (simp add: redondear_idem_17598)
  note r1 = T [THEN conjunct1, THEN mp, OF a1, unfolded f1]
  have el: "elementos pedido_lapiz = [34]"
    by (simp add: pedido_lapiz_def agregarElemento_def pedido_vacio_def new_GestorPedidos_def)
  have q34: "calcularPrecio almacen_estuche 34 = Some (Finito (3 / 2))"
    by (subst calcularPrecio.simps) (simp add: almacen_estuche_def)
  have q35: "calcularPrecio almacen_estuche 35 = Some (Finito (9 / 4))"
    by (subst calcularPrecio.simps) (simp add: almacen_estuche_def)
  have a2: "map (calcularPrecio almacen_estuche) (elementos pedido_lapiz)
      = map Some (map Finito [3 / 2])"
    by (simp add: el q34)
  have e2: "sumas_exactas 0 [3 / 2]"
    by code_simp
  have n2: "sum_list [3 / 2 :: rat] = 3 / 2"
    by simp
  note r2 = T [THEN conjunct2, THEN conjunct1, THEN mp, OF conjI [OF a2 e2], unfolded n2]
  have r: "redondear (9999 / 100) = Finito (7036170730324623 / 2 ^ 46)"
    by code_simp
  have p18: "calcularPrecio almacen_garantia 18 = Some (Finito (7036170730324623 / 2 ^ 46))"
    by (subst calcularPrecio.simps) (simp add: almacen_garantia_def new_Producto_def r)
  have s3: "suma (Finito (6191745800192655 / 2 ^ 45)) (Finito (7036170730324623 / 2 ^ 46))
      = Finito (4854915582677483 / 2 ^ 44)"
    by code_simp
  note r3 = T [THEN conjunct2, THEN conjunct2, THEN conjunct1, THEN mp,
      OF conjI [OF total_garantia p18], unfolded s3]
  have e4: "redondear (3 / 2 + 9 / 4) = Finito (3 / 2 + 9 / 4)"
    by code_simp
  have n4: "(3 / 2 + 9 / 4 :: rat) = 15 / 4"
    by simp
  note r4 = T [THEN conjunct2, THEN conjunct2, THEN conjunct2, THEN conjunct1, THEN mp,
      OF conjI [OF r2 conjI [OF q35 e4]], unfolded n4]
  have b1: "elementos pedido_ejemplo = map raiz [arbol_ejemplo]"
    by (simp add: elementos_pedido_ejemplo arbol_ejemplo_def)
  have b2': "representa almacen_cable arbol_ejemplo"
    by (simp add: almacen_cable_def new_Producto_def almacen_ejemplo_def arbol_ejemplo_def)
  then have b2: "\<forall>t \<in> set [arbol_ejemplo]. representa almacen_cable t"
    by simp
  have b3: "representa almacen_cable hoja_cable"
    by (simp add: almacen_cable_def new_Producto_def hoja_cable_def categoria_por_defecto_def)
  have b4: "13 \<notin> referencias hoja_cable"
    by (simp add: hoja_cable_def)
  have b5: "almacen_cable 13
      = Caja ''Peripherals'' [11, 12] (Finito 5) tipoEmpaque_por_defecto 5"
    by (simp add: almacen_cable_def new_Producto_def almacen_ejemplo_def)
  have b6: "int (length [11 :: ref, 12]) < 5" by simp
  have b7: "agregar almacen_cable 13 (raiz hoja_cable)
        = Some (almacen_cable(13 := Caja ''Peripherals'' [11, 12, 17] (Finito 5)
                                 tipoEmpaque_por_defecto 5),
                [Agregado ''Cable'' ''Peripherals''])"
    using agregar_con_espacio [of almacen_cable 13, OF b5 b6, of 17]
    by (simp add: hoja_cable_def almacen_cable_def new_Producto_def)
  have "elementos pedido_ejemplo = map raiz [arbol_ejemplo]
    \<and> (\<forall>t \<in> set [arbol_ejemplo]. representa almacen_cable t)
    \<and> representa almacen_cable hoja_cable \<and> 13 \<notin> referencias hoja_cable
    \<and> almacen_cable 13 = Caja ''Peripherals'' [11, 12] (Finito 5) tipoEmpaque_por_defecto 5
    \<and> int (length [11 :: ref, 12]) < 5
    \<and> agregar almacen_cable 13 (raiz hoja_cable)
        = Some (almacen_cable(13 := Caja ''Peripherals'' [11, 12, 17] (Finito 5)
                                 tipoEmpaque_por_defecto 5),
                [Agregado ''Cable'' ''Peripherals''])"
    by (intro conjI b1 b2 b3 b4 b5 b6 b7)
  note r5 = T [THEN conjunct2, THEN conjunct2, THEN conjunct2, THEN conjunct2, THEN mp,
      OF this, unfolded precio_con_cable]
  show ?thesis
    by (intro conjI a1 r1 a2 e2 r2 total_garantia p18 r3 q35 e4 r4
        b1 b2' b3 b4 b5 b6 b7 r5)
qed

lemma generarIndentacion_replicate:
  "generarIndentacion nivel = replicate (2 * nivel) (CHR '' '')"
  by (induction nivel) (simp_all add: generarIndentacion_def)

lemma foldl_lineas:
  "foldl (\<lambda>d x. d @ CHR 0x0A # x) acc (map g ts) = acc @ concat (map (\<lambda>s. CHR 0x0A # g s) ts)"
  by (induction ts arbitrary: acc) simp_all

lemma obtenerDescripcion_representa:
  "representa h t \<Longrightarrow> obtenerDescripcion h (raiz t) nivel = Some (descripcion_arbol nivel t)"
proof (induction t arbitrary: nivel)
  case (Hoja r n p c)
  then show ?case
    by (subst obtenerDescripcion.simps) (simp add: generarIndentacion_replicate)
next
  case (Rama r n ts costo te cap)
  have obj: "h r = Caja n (map raiz ts) costo te cap"
    using Rama.prems by simp
  have hijos: "obtenerDescripcion h (raiz s) (Suc nivel) = Some (descripcion_arbol (Suc nivel) s)"
    if s: "s \<in> set ts" for s
  proof -
    from Rama.prems s have "representa h s" by simp
    from Rama.IH [OF s this] show ?thesis .
  qed
  show ?case
  proof (cases "ts = []")
    case True
    then show ?thesis
      by (subst obtenerDescripcion.simps) (simp add: obj generarIndentacion_replicate)
  next
    case False
    have bucle: "bucle (\<lambda>descripcion elemento.
                   Option.bind (obtenerDescripcion h elemento (Suc nivel)) (\<lambda>d.
                   Some (descripcion @ CHR 0x0A # d))) acc (map raiz ts)
        = Some (acc @ concat (map (\<lambda>s. CHR 0x0A # descripcion_arbol (Suc nivel) s) ts))"
      for acc
      by (subst bucle_foldl [where g = "descripcion_arbol (Suc nivel)"
            and paso = "\<lambda>d x. d @ CHR 0x0A # x"])
         (simp_all add: hijos foldl_lineas)
    show ?thesis
      by (subst obtenerDescripcion.simps)
         (simp add: obj False bucle generarIndentacion_replicate)
  qed
qed

lemma digito_cifra: "0 \<le> d \<Longrightarrow> d < 10 \<Longrightarrow> digito d \<in> set ''0123456789''"
proof -
  assume "0 \<le> d" "d < 10"
  then have "nat d < length ''0123456789''" by simp
  then show ?thesis
    unfolding digito_def by (rule nth_mem)
qed

lemma digitos_cifras: "0 \<le> n \<Longrightarrow> digitos n \<noteq> [] \<and> set (digitos n) \<subseteq> set ''0123456789''"
proof (induction n rule: digitos.induct)
  case (1 n)
  show ?case
  proof (cases "n < 10")
    case True
    with "1.prems" digito_cifra [of n] show ?thesis
      by (subst (1 2) digitos.simps) simp
  next
    case False
    then have "0 \<le> n div 10" by simp
    from "1.IH" [OF False this] have ih: "set (digitos (n div 10)) \<subseteq> set ''0123456789''"
      by simp
    have "digito (n mod 10) \<in> set ''0123456789''"
      by (rule digito_cifra) simp_all
    with ih False show ?thesis
      by (subst (1 2) digitos.simps) simp
  qed
qed

lemma formato_aux:
  assumes "3 \<le> length m" and "set m \<subseteq> D"
  shows "\<exists>ent d1 d2. take (length m - 2) m @ ''.'' @ drop (length m - 2) m
            = ent @ [CHR ''.'', d1, d2]
          \<and> ent \<noteq> [] \<and> set (ent @ [d1, d2]) \<subseteq> D"
proof -
  define t where "t = drop (length m - 2) m"
  have "length t = 2"
    using assms(1) by (simp add: t_def)
  then obtain d1 d2 where t: "t = [d1, d2]"
    by (auto simp add: length_Suc_conv numeral_2_eq_2)
  have ent: "take (length m - 2) m \<noteq> []"
    using assms(1) by auto
  have "set (take (length m - 2) m) \<subseteq> set m" "set t \<subseteq> set m"
    unfolding t_def by (rule set_take_subset, rule set_drop_subset)
  with assms(2) have "set (take (length m - 2) m @ t) \<subseteq> D"
    by auto
  with ent show ?thesis
    unfolding t_def [symmetric] t by auto
qed

lemma decimales_2:
  "\<exists>ent d1 d2. decimales 2 x = (if x < 0 then ''-'' else []) @ ent @ [CHR ''.'', d1, d2]
     \<and> ent \<noteq> [] \<and> set (ent @ [d1, d2]) \<subseteq> set ''0123456789''"
proof -
  define n where "n = \<lfloor>\<bar>x\<bar> * 10 ^ 2 + 1 / 2\<rfloor>"
  define m where "m = (if length (digitos n) \<le> 2
      then replicate (2 + 1 - length (digitos n)) (CHR ''0'') @ digitos n else digitos n)"
  have "0 \<le> n" unfolding n_def by simp
  from digitos_cifras [OF this]
  have cifras: "set m \<subseteq> set ''0123456789''" and largo: "3 \<le> length m"
    by (auto simp add: m_def)
  have dec: "decimales 2 x = (if x < 0 then ''-'' else [])
      @ take (length m - 2) m @ ''.'' @ drop (length m - 2) m"
    by (simp add: decimales_def Let_def n_def m_def)
  from formato_aux [OF largo cifras] obtain ent d1 d2 where
    e: "take (length m - 2) m @ ''.'' @ drop (length m - 2) m = ent @ [CHR ''.'', d1, d2]"
    and ne: "ent \<noteq> []" and sub: "set (ent @ [d1, d2]) \<subseteq> set ''0123456789''"
    by blast
  have "decimales 2 x = (if x < 0 then ''-'' else []) @ ent @ [CHR ''.'', d1, d2]"
    unfolding dec e ..
  with ne sub show ?thesis by blast
qed

lemma toFixed_2_decimales:
  "\<bar>x\<bar> < 10 ^ 21 \<Longrightarrow>
   \<exists>ent d1 d2. toFixed (Finito x) 2 = (if x < 0 then ''-'' else []) @ ent @ [CHR ''.'', d1, d2]
     \<and> ent \<noteq> [] \<and> set (ent @ [d1, d2]) \<subseteq> set ''0123456789''"
  using decimales_2 [of x] by simp

lemma toFixed_exponente:
  "10 ^ 21 \<le> \<bar>x\<bar> \<Longrightarrow>
   toFixed (Finito x) f = (if x < 0 then ''-'' else []) @ ToString_natural \<lfloor>\<bar>x\<bar>\<rfloor>"
  by simp

text \<open>C6, as stated: for every container the handling cost would be written with two
  decimal places.  The empty box "Cara" costs \<open>1e21\<close>; \<open>toFixed(2)\<close> writes a number of
  that size in exponent notation, and the description shows the cost as \<open>1e+21\<close>.\<close>

theorem C6_Cara_counterexample:
  "almacen_caro 41 = Caja ''Cara'' [] (Finito (10 ^ 21)) tipoEmpaque_por_defecto 10
   \<and> obtenerDescripcion almacen_caro 41 0
       = Some (paquete @ '' Caja: Cara ('' @ tipoEmpaque_por_defecto
               @ '') - Costo base: $1e+21'' @ vacia)"
proof -
  have obj: "almacen_caro 41 = Caja ''Cara'' [] (Finito (10 ^ 21)) tipoEmpaque_por_defecto 10"
    by (simp add: almacen_caro_def)
  have f: "toFixed (Finito (10 ^ 21)) 2 = ''1e+21''"
    by code_simp
  have "obtenerDescripcion almacen_caro 41 0
       = Some (generarIndentacion 0 @ paquete @ '' Caja: Cara ('' @ tipoEmpaque_por_defecto
               @ '') - Costo base: $'' @ toFixed (Finito (10 ^ 21)) 2 @ vacia)"
    by (subst obtenerDescripcion.simps) (simp add: obj del: toFixed.simps)
  then have "obtenerDescripcion almacen_caro 41 0
       = Some (paquete @ '' Caja: Cara ('' @ tipoEmpaque_por_defecto
               @ '') - Costo base: $1e+21'' @ vacia)"
    unfolding f by (simp add: generarIndentacion_def)
  with obj show ?thesis by (intro conjI)
qed

text \<open>C6, amended.  On a store that unfolds to a tree from a \<open>Caja\<close>,
  \<open>obtenerDescripcion(nivel)\<close> returns, for every level \<open>nivel\<close>: the indentation of two
  spaces per level; the line of the container with its \<open>nombre\<close>, its \<open>tipoEmpaque\<close> and
  its \<open>costoCaja\<close> as \<open>toFixed(2)\<close> writes it, which is a sign, at least one digit, a point
  and exactly two digits when the cost is below \<open>10^21\<close> in magnitude, and the exponent
  notation of the number from there on; then the marker for "empty" when \<open>contenido\<close>
  is empty, and otherwise the number of entries, a slash, \<open>capacidadMaxima\<close> as a
  template literal writes a number and, each on a new line and in the order of
  \<open>contenido\<close>, the description of every child at level \<open>nivel + 1\<close>.\<close>

theorem C6_obtenerDescripcion:
  "representa h (Rama r n ts costo te cap) \<Longrightarrow>
   obtenerDescripcion h r nivel
     = Some (replicate (2 * nivel) (CHR '' '') @ paquete @ '' Caja: '' @ n @ '' ('' @ te
             @ '') - Costo base: $'' @ toFixed costo 2
             @ (if ts = [] then vacia
                else '' ('' @ digitos (int (length ts)) @ ''/'' @ ToString_entero cap
                     @ '' elementos):''
                     @ concat (map (\<lambda>s. CHR 0x0A # descripcion_arbol (nivel + 1) s) ts)))
   \<and> (\<forall>s \<in> set ts.
         obtenerDescripcion h (raiz s) (nivel + 1) = Some (descripcion_arbol (nivel + 1) s))
   \<and> generarIndentacion nivel = replicate (2 * nivel) (CHR '' '')
   \<and> (\<forall>x. costo = Finito x \<and> \<bar>x\<bar> < 10 ^ 21 \<longrightarrow>
         (\<exists>ent d1 d2.
            toFixed costo 2 = (if x < 0 then ''-'' else []) @ ent @ [CHR ''.'', d1, d2]
            \<and> ent \<noteq> [] \<and> set (ent @ [d1, d2]) \<subseteq> set ''0123456789''))
   \<and> (\<forall>x. costo = Finito x \<and> 10 ^ 21 \<le> \<bar>x\<bar> \<longrightarrow>
         toFixed costo 2 = (if x < 0 then ''-'' else []) @ ToString_natural \<lfloor>\<bar>x\<bar>\<rfloor>)"
proof (intro conjI ballI allI impI)
  assume rep: "representa h (Rama r n ts costo te cap)"
  from obtenerDescripcion_representa [OF rep, of nivel]
  show "obtenerDescripcion h r nivel
     = Some (replicate (2 * nivel) (CHR '' '') @ paquete @ '' Caja: '' @ n @ '' ('' @ te
             @ '') - Costo base: $'' @ toFixed costo 2
             @ (if ts = [] then vacia
                else '' ('' @ digitos (int (length ts)) @ ''/'' @ ToString_entero cap
                     @ '' elementos):''
                     @ concat (map (\<lambda>s. CHR 0x0A # descripcion_arbol (nivel + 1) s) ts)))"
    by simp
  show "generarIndentacion nivel = replicate (2 * nivel) (CHR '' '')"
    by (rule generarIndentacion_replicate)
  {
    fix s assume "s \<in> set ts"
    with rep have "representa h s" by simp
    then show "obtenerDescripcion h (raiz s) (nivel + 1) = Some (descripcion_arbol (nivel + 1) s)"
      by (rule obtenerDescripcion_representa)
  }
  {
    fix x assume "costo = Finito x \<and> \<bar>x\<bar> < 10 ^ 21"
    then show "\<exists>ent d1 d2.
            toFixed costo 2 = (if x < 0 then ''-'' else []) @ ent @ [CHR ''.'', d1, d2]
            \<and> ent \<noteq> [] \<and> set (ent @ [d1, d2]) \<subseteq> set ''0123456789''"
      using toFixed_2_decimales [of x] by blast
  }
  {
    fix x assume "costo = Finito x \<and> 10 ^ 21 \<le> \<bar>x\<bar>"
    then show "toFixed costo 2 = (if x < 0 then ''-'' else []) @ ToString_natural \<lfloor>\<bar>x\<bar>\<rfloor>"
      using toFixed_exponente [of x 2] by blast
  }
qed

lemma descripcion_ejemplo:
  "descripcion_arbol 0 arbol_ejemplo =
     paquete @ '' Caja: Shipment ('' @ tipoEmpaque_por_defecto
       @ '') - Costo base: $10.00 (2/10 elementos):'' @ [CHR 0x0A]
     @ ''  '' @ paquete @ '' Caja: Peripherals ('' @ tipoEmpaque_por_defecto
       @ '') - Costo base: $5.00 (2/5 elementos):'' @ [CHR 0x0A]
     @ ''    '' @ paquete @ '' Producto: Mouse (General) - $25.99'' @ [CHR 0x0A]
     @ ''    '' @ paquete @ '' Producto: Keyboard (General) - $89.99'' @ [CHR 0x0A]
     @ ''  '' @ paquete @ '' Producto: Book (General) - $45.00''"
  by code_simp

lemma descripcion_enorme:
  "descripcion_arbol 0
     (Rama 42 ''Enorme'' [Hoja 14 ''Book'' (Finito 45) ''General''] (Finito 0)
        tipoEmpaque_por_defecto (2 ^ 60)) =
     paquete @ '' Caja: Enorme ('' @ tipoEmpaque_por_defecto
       @ '') - Costo base: $0.00 (1/1152921504606847000 elementos):'' @ [CHR 0x0A]
     @ ''  '' @ paquete @ '' Producto: Book (General) - $45.00''"
  by code_simp

theorem C6_obtenerDescripcion_witness:
  "representa almacen_ejemplo arbol_ejemplo
   \<and> obtenerDescripcion almacen_ejemplo 15 0 =
     Some (paquete @ '' Caja: Shipment ('' @ tipoEmpaque_por_defecto
       @ '') - Costo base: $10.00 (2/10 elementos):'' @ [CHR 0x0A]
     @ ''  '' @ paquete @ '' Caja: Peripherals ('' @ tipoEmpaque_por_defecto
       @ '') - Costo base: $5.00 (2/5 elementos):'' @ [CHR 0x0A]
     @ ''    '' @ paquete @ '' Producto: Mouse (General) - $25.99'' @ [CHR 0x0A]
     @ ''    '' @ paquete @ '' Producto: Keyboard (General) - $89.99'' @ [CHR 0x0A]
     @ ''  '' @ paquete @ '' Producto: Book (General) - $45.00'')
   \<and> representa almacen_caro
        (Rama 42 ''Enorme'' [Hoja 14 ''Book'' (Finito 45) ''General''] (Finito 0)
           tipoEmpaque_por_defecto (2 ^ 60))
   \<and> obtenerDescripcion almacen_caro 42 0 =
     Some (paquete @ '' Caja: Enorme ('' @ tipoEmpaque_por_defecto
       @ '') - Costo base: $0.00 (1/1152921504606847000 elementos):'' @ [CHR 0x0A]
     @ ''  '' @ paquete @ '' Producto: Book (General) - $45.00'')"
proof -
  note T1 = C6_obtenerDescripcion [of almacen_ejemplo 15 "''Shipment''"
        "[Rama 13 ''Peripherals''
          [Hoja 11 ''Mouse'' (redondear (2599 / 100)) ''General'',
           Hoja 12 ''Keyboard'' (redondear (8999 / 100)) ''General'']
          (Finito 5) tipoEmpaque_por_defecto 5,
        Hoja 14 ''Book'' (Finito 45) ''General'']" "Finito 10" tipoEmpaque_por_defecto 10 0,
        folded arbol_ejemplo_def, OF representa_ejemplo]
  from T1 [THEN conjunct1]
  have d1: "obtenerDescripcion almacen_ejemplo 15 0 = Some (descripcion_arbol 0 arbol_ejemplo)"
    by (simp add: arbol_ejemplo_def del: toFixed.simps)
  have rep2: "representa almacen_caro
        (Rama 42 ''Enorme'' [Hoja 14 ''Book'' (Finito 45) ''General''] (Finito 0)
           tipoEmpaque_por_defecto (2 ^ 60))"
    by (simp add: almacen_caro_def almacen_ejemplo_def)
  note T2 = C6_obtenerDescripcion [of almacen_caro 42 "''Enorme''"
        "[Hoja 14 ''Book'' (Finito 45) ''General'']" "Finito 0" tipoEmpaque_por_defecto
        "2 ^ 60" 0, OF rep2]
  from T2 [THEN conjunct1]
  have d2: "obtenerDescripcion almacen_caro 42 0
      = Some (descripcion_arbol 0
     (Rama 42 ''Enorme'' [Hoja 14 ''Book'' (Finito 45) ''General''] (Finito 0)
        tipoEmpaque_por_defecto (2 ^ 60)))"
    by (simp del: toFixed.simps)
  show ?thesis
    using representa_ejemplo rep2 d1 d2
    by (simp only: descripcion_ejemplo descripcion_enorme simp_thms)
qed

end
